theory Spec2Isabelle
  imports Main "HOL-Library.Char_ord" "HOL-Library.List_Lexorder" "HOL-Library.Monad_Syntax"
begin

section \<open>Formatting primitives\<close>

text \<open>
  Go strings are byte sequences; they are modelled as \<open>string\<close> (a list of 8-bit
  characters). The two characters that cannot be written inside a literal are named.
\<close>

definition sq :: char where
  "sq = CHR 0x27"

definition nl :: char where
  "nl = CHR 0x0A"

text \<open>\<open>%d\<close> on a non-negative count (every \<open>%d\<close> of the program prints a
  \<open>len(...)\<close> or a rank).\<close>

definition digit :: "nat \<Rightarrow> char" where
  "digit d =
     (if d = 0 then CHR ''0'' else if d = 1 then CHR ''1'' else if d = 2 then CHR ''2''
      else if d = 3 then CHR ''3'' else if d = 4 then CHR ''4'' else if d = 5 then CHR ''5''
      else if d = 6 then CHR ''6'' else if d = 7 then CHR ''7'' else if d = 8 then CHR ''8''
      else CHR ''9'')"

function itoa :: "nat \<Rightarrow> string" where
  "itoa n = (if n < 10 then [digit n] else itoa (n div 10) @ [digit (n mod 10)])"
  by pat_completeness auto
termination
  by (relation "measure id") auto

declare itoa.simps [simp del]

text \<open>\<open>%-Ns\<close> pads on the right and \<open>%Nd\<close> on the left, with spaces, up to width
  \<open>N\<close>. Go counts the width in runes; the padded values are Kubernetes object names
  and addresses, which are ASCII, so bytes and runes agree.\<close>

definition pad_right :: "nat \<Rightarrow> string \<Rightarrow> string" where
  "pad_right w s = s @ replicate (w - length s) CHR '' ''"

definition pad_left :: "nat \<Rightarrow> string \<Rightarrow> string" where
  "pad_left w s = replicate (w - length s) CHR '' '' @ s"

text \<open>\<open>strings.Join\<close>.\<close>

fun join :: "string \<Rightarrow> string list \<Rightarrow> string" where
  "join sep [] = []"
| "join sep [x] = x"
| "join sep (x # y # ys) = x @ sep @ join sep (y # ys)"

text \<open>\<open>%v\<close> on a \<open>[]string\<close> prints \<open>[a b c]\<close>; on a \<open>map[string]string\<close> it prints
  \<open>map[k1:v1 k2:v2]\<close> with the keys sorted. A Go map value is represented by an
  association list with distinct keys.\<close>

type_synonym labels = "(string \<times> string) list"

definition fmt_strings :: "string list \<Rightarrow> string" where
  "fmt_strings xs = ''['' @ join '' '' xs @ '']''"

definition fmt_map :: "labels \<Rightarrow> string" where
  "fmt_map m = ''map['' @ join '' '' (map (\<lambda>(k, v). k @ '':'' @ v) (sort_key fst m)) @ '']''"

section \<open>Errors and the result envelope\<close>

text \<open>A Go \<open>error\<close> value is represented by its message; \<open>fmt.Errorf("p: %w", err)\<close>
  prefixes the message of the wrapped error.\<close>

datatype error = Error (message: string)

definition wrap :: "string \<Rightarrow> error \<Rightarrow> error" where
  "wrap prefix e = Error (prefix @ message e)"

datatype Content = TextContent (Type: string) (Text: string)

record CallToolResult =
  IsError :: bool
  Content :: "Content list"

text \<open>\<open>NewTextResult\<close> (pkg/mcp/mcp.go). A nil \<open>error\<close> is \<open>None\<close>.\<close>

definition NewTextResult :: "string \<Rightarrow> error option \<Rightarrow> CallToolResult" where
  "NewTextResult content err =
     (case err of
        Some e \<Rightarrow> \<lparr>IsError = True, Content = [TextContent ''text'' (message e)]\<rparr>
      | None \<Rightarrow> \<lparr>IsError = False, Content = [TextContent ''text'' content]\<rparr>)"

section \<open>Cluster resources\<close>

text \<open>
  The records returned by the cluster APIs, with the fields the program reads. A nil
  slice, map or pointer is \<open>None\<close>. Route lists are only counted, so their elements
  are opaque. An enum field whose \<open>String()\<close> is printed is held as that string.
\<close>

datatype route = Route

record VirtualService =
  vs_Name :: string
  vs_Hosts :: "string list option"
  vs_Gateways :: "string list option"
  vs_Http :: "route list"
  vs_Tcp :: "route list"
  vs_Tls :: "route list"

record DestinationRule =
  dr_Name :: string
  dr_Host :: string

record Gateway =
  gw_Name :: string
  gw_Selector :: "labels option"

record ServiceEntry =
  se_Name :: string
  se_Hosts :: "string list option"
  se_Location :: string

text \<open>\<open>Spec.Selector\<close> is a pointer to a struct holding the \<open>MatchLabels\<close> map:
  the outer option is the pointer, the inner one the map.\<close>

record AuthorizationPolicy =
  ap_Name :: string
  ap_Selector :: "labels option option"
  ap_Action :: string

record PeerAuthentication =
  pa_Name :: string
  pa_Selector :: "labels option option"
  pa_Mtls :: "string option"

record EnvoyFilter =
  ef_Name :: string
  ef_WorkloadSelector :: "labels option option"

record Telemetry =
  tel_Name :: string
  tel_Selector :: "labels option option"

record LoadBalancerIngress =
  lb_IP :: string
  lb_Hostname :: string

record Service =
  svc_Name :: string
  svc_Type :: string
  svc_ClusterIP :: string
  svc_Ingress :: "LoadBalancerIngress list"
  svc_Selector :: "labels option"

record ObjectReference =
  ref_Kind :: string
  ref_Name :: string

record EndpointAddress =
  addr_IP :: string
  addr_TargetRef :: "ObjectReference option"

record EndpointSubset =
  sub_Addresses :: "EndpointAddress list"

record Endpoints =
  ep_Subsets :: "EndpointSubset list"

record PodCondition =
  cond_Type :: string
  cond_Status :: string

record Pod =
  pod_Name :: string
  pod_Namespace :: string
  pod_Phase :: string
  pod_Containers :: "string list"
  pod_Conditions :: "PodCondition list"
  pod_PodIP :: string
  pod_NodeName :: string

section \<open>The external collaborators\<close>

text \<open>
  A client is what it answers: the Istio clientset and the Kubernetes clientset are
  records of their list and get calls, each returning an error or the items. The
  caller's context is not modelled; a cancelled or timed-out call is an error answer.
\<close>

record istio_api =
  VirtualServices_List :: "string \<Rightarrow> error + VirtualService list"
  DestinationRules_List :: "string \<Rightarrow> error + DestinationRule list"
  Gateways_List :: "string \<Rightarrow> error + Gateway list"
  ServiceEntries_List :: "string \<Rightarrow> error + ServiceEntry list"
  AuthorizationPolicies_List :: "string \<Rightarrow> error + AuthorizationPolicy list"
  PeerAuthentications_List :: "string \<Rightarrow> error + PeerAuthentication list"
  EnvoyFilters_List :: "string \<Rightarrow> error + EnvoyFilter list"
  Telemetries_List :: "string \<Rightarrow> error + Telemetry list"

text \<open>\<open>Pods_List namespace labelSelector fieldSelector\<close>.\<close>

record kube_api =
  Services_List :: "string \<Rightarrow> error + Service list"
  Services_Get :: "string \<Rightarrow> string \<Rightarrow> error + Service"
  Endpoints_Get :: "string \<Rightarrow> string \<Rightarrow> error + Endpoints"
  Pods_List :: "string \<Rightarrow> string \<Rightarrow> string \<Rightarrow> error + Pod list"

text \<open>
  What the process gets from its host and from the Go runtime: the result of running
  \<open>istioctl\<close> with a timeout in seconds and an argument vector (combined output and
  error, as \<open>CombinedOutput\<close> returns them), and the order in which a \<open>range\<close>
  statement visits the entries of a map, which Go leaves unspecified.
\<close>

record host =
  run_istioctl :: "nat \<Rightarrow> string list \<Rightarrow> string \<times> error option"
  range_labels :: "labels \<Rightarrow> labels"
  range_counts :: "(string \<times> nat) list \<Rightarrow> (string \<times> nat) list"

text \<open>Every call that leaves the process is recorded, in order.\<close>

datatype call =
    ListVirtualServices string
  | ListDestinationRules string
  | ListGateways string
  | ListServiceEntries string
  | ListAuthorizationPolicies string
  | ListPeerAuthentications string
  | ListEnvoyFilters string
  | ListTelemetries string
  | ListServices string
  | GetService string string
  | GetEndpoints string string
  | ListPods string string string
  | RunIstioctl "string list"

type_synonym 'a traced = "call list \<times> (error + 'a)"

section \<open>Proxy configuration client (package istio, proxy_config.go)\<close>

record ProxyConfigClient =
  pc_kubeconfig :: string
  pc_timeout :: nat

definition NewProxyConfigClient :: "string \<Rightarrow> ProxyConfigClient" where
  "NewProxyConfigClient kubeconfig = \<lparr>pc_kubeconfig = kubeconfig, pc_timeout = 30\<rparr>"

definition execIstioctl :: "host \<Rightarrow> ProxyConfigClient \<Rightarrow> string list \<Rightarrow> string traced" where
  "execIstioctl h p args =
     (let cmdArgs = (if pc_kubeconfig p \<noteq> [] then [''--kubeconfig'', pc_kubeconfig p] else []) @ args;
          (output, err) = run_istioctl h (pc_timeout p) cmdArgs
      in ([RunIstioctl cmdArgs],
          case err of
            Some e \<Rightarrow> Inl (Error (''istioctl command failed: '' @ message e @ '', output: '' @ output))
          | None \<Rightarrow> Inr output))"

definition GetClusters :: "host \<Rightarrow> ProxyConfigClient \<Rightarrow> string \<Rightarrow> string \<Rightarrow> string traced" where
  "GetClusters h p namespace podName =
     execIstioctl h p [''proxy-config'', ''cluster'', podName @ ''.'' @ namespace, ''-o'', ''json'']"

definition GetListeners :: "host \<Rightarrow> ProxyConfigClient \<Rightarrow> string \<Rightarrow> string \<Rightarrow> string traced" where
  "GetListeners h p namespace podName =
     execIstioctl h p [''proxy-config'', ''listener'', podName @ ''.'' @ namespace, ''-o'', ''json'']"

definition GetRoutes :: "host \<Rightarrow> ProxyConfigClient \<Rightarrow> string \<Rightarrow> string \<Rightarrow> string traced" where
  "GetRoutes h p namespace podName =
     execIstioctl h p [''proxy-config'', ''route'', podName @ ''.'' @ namespace, ''-o'', ''json'']"

definition GetEndpoints_pc :: "host \<Rightarrow> ProxyConfigClient \<Rightarrow> string \<Rightarrow> string \<Rightarrow> string traced" where
  "GetEndpoints_pc h p namespace podName =
     execIstioctl h p [''proxy-config'', ''endpoint'', podName @ ''.'' @ namespace, ''-o'', ''json'']"

definition GetBootstrap :: "host \<Rightarrow> ProxyConfigClient \<Rightarrow> string \<Rightarrow> string \<Rightarrow> string traced" where
  "GetBootstrap h p namespace podName =
     execIstioctl h p [''proxy-config'', ''bootstrap'', podName @ ''.'' @ namespace, ''-o'', ''json'']"

definition GetSecret :: "host \<Rightarrow> ProxyConfigClient \<Rightarrow> string \<Rightarrow> string \<Rightarrow> string traced" where
  "GetSecret h p namespace podName =
     execIstioctl h p [''proxy-config'', ''secret'', podName @ ''.'' @ namespace, ''-o'', ''json'']"

definition GetConfigDump :: "host \<Rightarrow> ProxyConfigClient \<Rightarrow> string \<Rightarrow> string \<Rightarrow> string traced" where
  "GetConfigDump h p namespace podName =
     execIstioctl h p [''proxy-config'', ''all'', podName @ ''.'' @ namespace, ''-o'', ''json'']"

definition GetProxyStatus :: "host \<Rightarrow> ProxyConfigClient \<Rightarrow> string traced" where
  "GetProxyStatus h p = execIstioctl h p [''proxy-status'']"

definition GetProxyStatusForPod :: "host \<Rightarrow> ProxyConfigClient \<Rightarrow> string \<Rightarrow> string \<Rightarrow> string traced" where
  "GetProxyStatusForPod h p namespace podName =
     execIstioctl h p [''proxy-status'', podName @ ''.'' @ namespace]"

definition GetAnalyze :: "host \<Rightarrow> ProxyConfigClient \<Rightarrow> string \<Rightarrow> string traced" where
  "GetAnalyze h p namespace =
     (if namespace \<noteq> [] then execIstioctl h p [''analyze'', ''-n'', namespace]
      else execIstioctl h p [''analyze''])"

section \<open>The Istio handle (package istio, istio.go)\<close>

text \<open>
  The client libraries and the file-watching library, as far as the handle's
  construction and its kubeconfig watch depend on them. A \<open>ClientConfig\<close> is reduced to
  what \<open>ConfigAccess().GetLoadingPrecedence()\<close> gives: \<open>None\<close> when \<open>ConfigAccess()\<close> is
  nil, else the list of files.
\<close>

datatype rest_Config = RestConfig string

record ClientConfig =
  ConfigAccess :: "string list option"

record libs =
  BuildConfigFromFlags :: "string \<Rightarrow> error + rest_Config"
  NewClientConfigFromBytes :: "error + ClientConfig"
  ExplicitPathClientConfig :: "string \<Rightarrow> ClientConfig"
  DefaultClientConfig :: ClientConfig
  DefaultClientConfig_ClientConfig :: "error + rest_Config"
  kubernetes_NewForConfig :: "rest_Config \<Rightarrow> error + kube_api"
  versioned_NewForConfig :: "rest_Config \<Rightarrow> error + istio_api"
  fsnotify_NewWatcher :: "error option"
  watcher_Add :: "string \<Rightarrow> error option"

text \<open>
  The field \<open>CloseWatchKubeConfig\<close> holds a function value, \<open>watcher.Close\<close> of some
  watcher, or nil; it is represented by the identity of that watcher.
\<close>

record Istio =
  kubeClient :: kube_api
  istioClient :: istio_api
  config :: rest_Config
  clientCmdConfig :: "ClientConfig option"
  CloseWatchKubeConfig :: "nat option"
  ProxyConfig :: ProxyConfigClient

definition buildConfig :: "libs \<Rightarrow> string \<Rightarrow> error + (rest_Config \<times> ClientConfig option)" where
  "buildConfig l kubeconfig =
     (if kubeconfig \<noteq> [] then
        (case BuildConfigFromFlags l kubeconfig of
           Inl err \<Rightarrow> Inl err
         | Inr cfg \<Rightarrow>
             (case NewClientConfigFromBytes l of
                Inl _ \<Rightarrow> Inr (cfg, Some (ExplicitPathClientConfig l kubeconfig))
              | Inr cc \<Rightarrow> Inr (cfg, Some cc)))
      else
        (case DefaultClientConfig_ClientConfig l of
           Inl err \<Rightarrow> Inl err
         | Inr cfg \<Rightarrow> Inr (cfg, Some (DefaultClientConfig l))))"

definition NewIstio :: "libs \<Rightarrow> string \<Rightarrow> error + Istio" where
  "NewIstio l kubeconfig =
     (case buildConfig l kubeconfig of
        Inl err \<Rightarrow> Inl (wrap ''failed to build config: '' err)
      | Inr (cfg, cc) \<Rightarrow>
          (case kubernetes_NewForConfig l cfg of
             Inl err \<Rightarrow> Inl (wrap ''failed to create kubernetes client: '' err)
           | Inr kc \<Rightarrow>
               (case versioned_NewForConfig l cfg of
                  Inl err \<Rightarrow> Inl (wrap ''failed to create istio client: '' err)
                | Inr ic \<Rightarrow>
                    Inr \<lparr>kubeClient = kc, istioClient = ic, config = cfg, clientCmdConfig = cc,
                         CloseWatchKubeConfig = None,
                         ProxyConfig = NewProxyConfigClient kubeconfig\<rparr>)))"

subsection \<open>Resource listings\<close>

definition quoted :: "string \<Rightarrow> string" where
  "quoted s = [sq] @ s @ [sq]"

definition found_header :: "nat \<Rightarrow> string \<Rightarrow> string \<Rightarrow> string" where
  "found_header n kind namespace =
     ''Found '' @ itoa n @ '' '' @ kind @ '' in namespace '' @ quoted namespace @ '':'' @ [nl]"

definition vs_item :: "VirtualService \<Rightarrow> string" where
  "vs_item vs =
     ''- '' @ vs_Name vs @ [nl]
     @ (case vs_Hosts vs of Some hs \<Rightarrow> ''  Hosts: '' @ fmt_strings hs @ [nl] | None \<Rightarrow> [])
     @ (case vs_Gateways vs of Some gs \<Rightarrow> ''  Gateways: '' @ fmt_strings gs @ [nl] | None \<Rightarrow> [])
     @ (if length (vs_Http vs) > 0 then ''  HTTP Routes: '' @ itoa (length (vs_Http vs)) @ [nl] else [])
     @ (if length (vs_Tcp vs) > 0 then ''  TCP Routes: '' @ itoa (length (vs_Tcp vs)) @ [nl] else [])
     @ (if length (vs_Tls vs) > 0 then ''  TLS Routes: '' @ itoa (length (vs_Tls vs)) @ [nl] else [])
     @ [nl]"

definition GetVirtualServices :: "Istio \<Rightarrow> string \<Rightarrow> string traced" where
  "GetVirtualServices i namespace =
     ([ListVirtualServices namespace],
      case VirtualServices_List (istioClient i) namespace of
        Inl err \<Rightarrow> Inl (wrap ''failed to list virtual services: '' err)
      | Inr items \<Rightarrow>
          Inr (found_header (length items) ''Virtual Services'' namespace @ concat (map vs_item items)))"

definition dr_item :: "DestinationRule \<Rightarrow> string" where
  "dr_item dr =
     ''- '' @ dr_Name dr @ [nl]
     @ (if dr_Host dr \<noteq> [] then ''  Host: '' @ dr_Host dr @ [nl] else [])"

definition GetDestinationRules :: "Istio \<Rightarrow> string \<Rightarrow> string traced" where
  "GetDestinationRules i namespace =
     ([ListDestinationRules namespace],
      case DestinationRules_List (istioClient i) namespace of
        Inl err \<Rightarrow> Inl (wrap ''failed to list destination rules: '' err)
      | Inr items \<Rightarrow>
          Inr (found_header (length items) ''Destination Rules'' namespace @ concat (map dr_item items)))"

definition gw_item :: "Gateway \<Rightarrow> string" where
  "gw_item gw =
     ''- '' @ gw_Name gw @ [nl]
     @ (case gw_Selector gw of Some m \<Rightarrow> ''  Selector: '' @ fmt_map m @ [nl] | None \<Rightarrow> [])"

definition GetGateways :: "Istio \<Rightarrow> string \<Rightarrow> string traced" where
  "GetGateways i namespace =
     ([ListGateways namespace],
      case Gateways_List (istioClient i) namespace of
        Inl err \<Rightarrow> Inl (wrap ''failed to list gateways: '' err)
      | Inr items \<Rightarrow>
          Inr (found_header (length items) ''Gateways'' namespace @ concat (map gw_item items)))"

definition se_item :: "ServiceEntry \<Rightarrow> string" where
  "se_item se =
     ''- '' @ se_Name se @ [nl]
     @ (case se_Hosts se of Some hs \<Rightarrow> ''  Hosts: '' @ fmt_strings hs @ [nl] | None \<Rightarrow> [])
     @ (if se_Location se \<noteq> [] then ''  Location: '' @ se_Location se @ [nl] else [])"

definition GetServiceEntries :: "Istio \<Rightarrow> string \<Rightarrow> string traced" where
  "GetServiceEntries i namespace =
     ([ListServiceEntries namespace],
      case ServiceEntries_List (istioClient i) namespace of
        Inl err \<Rightarrow> Inl (wrap ''failed to list service entries: '' err)
      | Inr items \<Rightarrow>
          Inr (found_header (length items) ''Service Entries'' namespace @ concat (map se_item items)))"

definition selector_line :: "string \<Rightarrow> labels option option \<Rightarrow> string" where
  "selector_line label sel =
     (case sel of Some (Some m) \<Rightarrow> label @ fmt_map m @ [nl] | _ \<Rightarrow> [])"

definition ap_item :: "AuthorizationPolicy \<Rightarrow> string" where
  "ap_item ap =
     ''- '' @ ap_Name ap @ [nl]
     @ selector_line ''  Selector: '' (ap_Selector ap)
     @ (if ap_Action ap \<noteq> [] then ''  Action: '' @ ap_Action ap @ [nl] else [])"

definition GetAuthorizationPolicies :: "Istio \<Rightarrow> string \<Rightarrow> string traced" where
  "GetAuthorizationPolicies i namespace =
     ([ListAuthorizationPolicies namespace],
      case AuthorizationPolicies_List (istioClient i) namespace of
        Inl err \<Rightarrow> Inl (wrap ''failed to list authorization policies: '' err)
      | Inr items \<Rightarrow>
          Inr (found_header (length items) ''Authorization Policies'' namespace @ concat (map ap_item items)))"

definition pa_item :: "PeerAuthentication \<Rightarrow> string" where
  "pa_item pa =
     ''- '' @ pa_Name pa @ [nl]
     @ selector_line ''  Selector: '' (pa_Selector pa)
     @ (case pa_Mtls pa of Some mode \<Rightarrow> ''  mTLS Mode: '' @ mode @ [nl] | None \<Rightarrow> [])"

definition GetPeerAuthentications :: "Istio \<Rightarrow> string \<Rightarrow> string traced" where
  "GetPeerAuthentications i namespace =
     ([ListPeerAuthentications namespace],
      case PeerAuthentications_List (istioClient i) namespace of
        Inl err \<Rightarrow> Inl (wrap ''failed to list peer authentications: '' err)
      | Inr items \<Rightarrow>
          Inr (found_header (length items) ''Peer Authentications'' namespace @ concat (map pa_item items)))"

definition ef_item :: "EnvoyFilter \<Rightarrow> string" where
  "ef_item ef =
     ''- '' @ ef_Name ef @ [nl]
     @ selector_line ''  Workload Selector: '' (ef_WorkloadSelector ef)"

definition GetEnvoyFilters :: "Istio \<Rightarrow> string \<Rightarrow> string traced" where
  "GetEnvoyFilters i namespace =
     ([ListEnvoyFilters namespace],
      case EnvoyFilters_List (istioClient i) namespace of
        Inl err \<Rightarrow> Inl (wrap ''failed to list envoy filters: '' err)
      | Inr items \<Rightarrow>
          Inr (found_header (length items) ''Envoy Filters'' namespace @ concat (map ef_item items)))"

definition tel_item :: "Telemetry \<Rightarrow> string" where
  "tel_item tel =
     ''- '' @ tel_Name tel @ [nl]
     @ selector_line ''  Selector: '' (tel_Selector tel)"

definition GetTelemetries :: "Istio \<Rightarrow> string \<Rightarrow> string traced" where
  "GetTelemetries i namespace =
     ([ListTelemetries namespace],
      case Telemetries_List (istioClient i) namespace of
        Inl err \<Rightarrow> Inl (wrap ''failed to list telemetries: '' err)
      | Inr items \<Rightarrow>
          Inr (found_header (length items) ''Telemetry configurations'' namespace @ concat (map tel_item items)))"

subsection \<open>Configuration summary\<close>

text \<open>Each of the eight listings is issued; one that fails is logged and contributes
  no line.\<close>

definition count_line :: "string \<Rightarrow> error + 'a list \<Rightarrow> string" where
  "count_line label r =
     (case r of Inl _ \<Rightarrow> [] | Inr items \<Rightarrow> label @ itoa (length items) @ [nl])"

definition GetIstioConfigSummary :: "Istio \<Rightarrow> string \<Rightarrow> string traced" where
  "GetIstioConfigSummary i namespace =
     ([ListVirtualServices namespace, ListDestinationRules namespace, ListGateways namespace,
       ListServiceEntries namespace, ListAuthorizationPolicies namespace,
       ListPeerAuthentications namespace, ListEnvoyFilters namespace, ListTelemetries namespace],
      Inr (''Istio Configuration Summary for namespace '' @ quoted namespace @ '':'' @ [nl, nl]
           @ count_line ''Virtual Services: '' (VirtualServices_List (istioClient i) namespace)
           @ count_line ''Destination Rules: '' (DestinationRules_List (istioClient i) namespace)
           @ count_line ''Gateways: '' (Gateways_List (istioClient i) namespace)
           @ count_line ''Service Entries: '' (ServiceEntries_List (istioClient i) namespace)
           @ count_line ''Authorization Policies: '' (AuthorizationPolicies_List (istioClient i) namespace)
           @ count_line ''Peer Authentications: '' (PeerAuthentications_List (istioClient i) namespace)
           @ count_line ''Envoy Filters: '' (EnvoyFilters_List (istioClient i) namespace)
           @ count_line ''Telemetry Configurations: '' (Telemetries_List (istioClient i) namespace)))"

subsection \<open>External dependency check\<close>

definition hosts_of :: "string list option \<Rightarrow> string list" where
  "hosts_of hs = (case hs of None \<Rightarrow> [] | Some xs \<Rightarrow> xs)"

text \<open>The verdict lines, given the three findings and the four detail lines.\<close>

definition dependency_report ::
  "string \<Rightarrow> string \<Rightarrow> string \<Rightarrow> bool \<Rightarrow> string \<Rightarrow> bool \<Rightarrow> string \<Rightarrow> bool \<Rightarrow> string \<Rightarrow> string \<Rightarrow> string" where
  "dependency_report serviceName externalHost namespace serviceEntryFound serviceEntryDetails
       virtualServiceFound virtualServiceDetails destinationRuleFound destinationRuleDetails
       authorizationPolicyDetails =
     ''External Dependency Check for service '' @ quoted serviceName @ '' -> '' @ quoted externalHost
       @ '' in namespace '' @ quoted namespace @ '':'' @ [nl, nl]
     @ serviceEntryDetails @ [nl]
     @ virtualServiceDetails @ [nl]
     @ destinationRuleDetails @ [nl]
     @ authorizationPolicyDetails @ [nl, nl]
     @ (if serviceEntryFound then
          ''[RESULT] External dependency '' @ quoted externalHost @ '' is available for service ''
            @ quoted serviceName @ [nl]
          @ ''   The Service Entry exists, which means the external service is registered in the mesh.'' @ [nl]
          @ (if virtualServiceFound \<or> destinationRuleFound
             then ''   Additional routing and traffic policies are configured.'' @ [nl] else [])
        else
          ''[RESULT] External dependency '' @ quoted externalHost @ '' is NOT available for service ''
            @ quoted serviceName @ [nl]
          @ ''   You need to create a Service Entry for '' @ quoted externalHost
            @ '' before the service can access it.'' @ [nl]
          @ ''   Consider creating it in namespace '' @ quoted namespace
            @ '' or globally in '' @ quoted ''istio-system'' @ ''.'' @ [nl])"

text \<open>The four checks that follow the listings. The first one also lists the
  service entries of \<open>istio-system\<close> when the namespace has no match, and ignores
  the failure of that listing; it returns the call it issued, if any.\<close>

definition service_entry_check ::
  "Istio \<Rightarrow> string \<Rightarrow> string \<Rightarrow> ServiceEntry list \<Rightarrow> call list \<times> bool \<times> string" where
  "service_entry_check i externalHost namespace seItems =
     (case find (\<lambda>se. externalHost \<in> set (hosts_of (se_Hosts se))) seItems of
        Some se \<Rightarrow>
          ([], True,
           ''[OK] Service Entry: '' @ quoted (se_Name se) @ '' found in namespace '' @ quoted namespace)
      | None \<Rightarrow>
          ([ListServiceEntries ''istio-system''],
           (case ServiceEntries_List (istioClient i) ''istio-system'' of
              Inl _ \<Rightarrow> (False, ''[MISSING] Service Entry: Not found for external host'')
            | Inr sysItems \<Rightarrow>
                (case find (\<lambda>se. externalHost \<in> set (hosts_of (se_Hosts se))) sysItems of
                   Some se \<Rightarrow>
                     (True, ''[OK] Service Entry: '' @ quoted (se_Name se)
                        @ '' found in namespace '' @ quoted ''istio-system'' @ '' (global)'')
                 | None \<Rightarrow> (False, ''[MISSING] Service Entry: Not found for external host'')))))"

definition virtual_service_check :: "string \<Rightarrow> VirtualService list \<Rightarrow> bool \<times> string" where
  "virtual_service_check externalHost vsItems =
     (case find (\<lambda>vs. externalHost \<in> set (hosts_of (vs_Hosts vs))) vsItems of
        Some vs \<Rightarrow>
          (True, ''[OK] Virtual Service: '' @ quoted (vs_Name vs) @ '' found with routing rules'')
      | None \<Rightarrow>
          (False, ''[WARNING] Virtual Service: No specific routing rules found (may use default routing)''))"

definition destination_rule_check :: "string \<Rightarrow> DestinationRule list \<Rightarrow> bool \<times> string" where
  "destination_rule_check externalHost drItems =
     (case find (\<lambda>dr. dr_Host dr = externalHost) drItems of
        Some dr \<Rightarrow>
          (True, ''[OK] Destination Rule: '' @ quoted (dr_Name dr) @ '' found with traffic policies'')
      | None \<Rightarrow>
          (False, ''[WARNING] Destination Rule: No specific traffic policies found (may use default policies)''))"

definition authorization_policy_check :: "AuthorizationPolicy list \<Rightarrow> string" where
  "authorization_policy_check apItems =
     (case find (\<lambda>ap. ap_Action ap = ''ALLOW'') apItems of
        Some ap \<Rightarrow>
          ''[OK] Authorization Policy: '' @ quoted (ap_Name ap) @ '' found (ALLOW action)''
      | None \<Rightarrow>
          ''[WARNING] Authorization Policy: No explicit ALLOW policies found (may use default allow)'')"

definition CheckExternalDependencyAvailability ::
  "Istio \<Rightarrow> string \<Rightarrow> string \<Rightarrow> string \<Rightarrow> string traced" where
  "CheckExternalDependencyAvailability i serviceName externalHost namespace =
     (case ServiceEntries_List (istioClient i) namespace of
        Inl err \<Rightarrow> ([ListServiceEntries namespace], Inl (wrap ''failed to list service entries: '' err))
      | Inr seItems \<Rightarrow>
     (let (t1, serviceEntryFound, serviceEntryDetails) =
            service_entry_check i externalHost namespace seItems
      in
      case VirtualServices_List (istioClient i) namespace of
        Inl err \<Rightarrow>
          (ListServiceEntries namespace # t1 @ [ListVirtualServices namespace],
           Inl (wrap ''failed to list virtual services: '' err))
      | Inr vsItems \<Rightarrow>
     (let (virtualServiceFound, virtualServiceDetails) = virtual_service_check externalHost vsItems
      in
      case DestinationRules_List (istioClient i) namespace of
        Inl err \<Rightarrow>
          (ListServiceEntries namespace # t1
             @ [ListVirtualServices namespace, ListDestinationRules namespace],
           Inl (wrap ''failed to list destination rules: '' err))
      | Inr drItems \<Rightarrow>
     (let (destinationRuleFound, destinationRuleDetails) = destination_rule_check externalHost drItems
      in
      case AuthorizationPolicies_List (istioClient i) namespace of
        Inl err \<Rightarrow>
          (ListServiceEntries namespace # t1
             @ [ListVirtualServices namespace, ListDestinationRules namespace,
                ListAuthorizationPolicies namespace],
           Inl (wrap ''failed to list authorization policies: '' err))
      | Inr apItems \<Rightarrow>
          (ListServiceEntries namespace # t1
             @ [ListVirtualServices namespace, ListDestinationRules namespace,
                ListAuthorizationPolicies namespace],
           Inr (dependency_report serviceName externalHost namespace serviceEntryFound
                  serviceEntryDetails virtualServiceFound virtualServiceDetails destinationRuleFound
                  destinationRuleDetails (authorization_policy_check apItems)))))))"

subsection \<open>Service and pod discovery\<close>

definition externalIP :: "Service \<Rightarrow> string" where
  "externalIP service =
     (case svc_Ingress service of
        [] \<Rightarrow> ''<pending>''
      | ing # _ \<Rightarrow>
          if lb_IP ing \<noteq> [] then lb_IP ing
          else if lb_Hostname ing \<noteq> [] then lb_Hostname ing
          else ''<pending>'')"

definition service_group :: "string \<Rightarrow> string list \<Rightarrow> string" where
  "service_group title svcs =
     (if length svcs > 0
      then title @ [nl] @ concat (map (\<lambda>svc. ''   '' @ svc @ [nl]) svcs) @ [nl]
      else [])"

definition GetServices :: "Istio \<Rightarrow> string \<Rightarrow> string traced" where
  "GetServices i namespace =
     ([ListServices namespace],
      case Services_List (kubeClient i) namespace of
        Inl err \<Rightarrow> Inl (wrap ''failed to list services: '' err)
      | Inr items \<Rightarrow>
     (let result = ''Services in namespace '' @ quoted namespace @ '':'' @ [nl, nl]
                   @ ''Found '' @ itoa (length items) @ '' services:'' @ [nl, nl]
      in
      if length items = 0 then Inr (result @ ''No services found in this namespace.'' @ [nl])
      else
       (let serviceLine = (\<lambda>s. pad_right 30 (svc_Name s));
            other = (\<lambda>s. svc_Type s \<noteq> ''NodePort'' \<and> svc_Type s \<noteq> ''LoadBalancer'');
            clusterIPServices =
              map (\<lambda>s. serviceLine s @ '' (ClusterIP: '' @ svc_ClusterIP s @ '')'')
                  (filter (\<lambda>s. other s \<and> svc_ClusterIP s \<noteq> ''None'') items);
            nodePortServices =
              map (\<lambda>s. serviceLine s @ '' (NodePort: '' @ svc_ClusterIP s @ '')'')
                  (filter (\<lambda>s. svc_Type s = ''NodePort'') items);
            loadBalancerServices =
              map (\<lambda>s. serviceLine s @ '' (LoadBalancer: '' @ externalIP s @ '')'')
                  (filter (\<lambda>s. svc_Type s = ''LoadBalancer'') items);
            headlessServices =
              map (\<lambda>s. serviceLine s @ '' (Headless)'')
                  (filter (\<lambda>s. other s \<and> svc_ClusterIP s = ''None'') items)
        in
        Inr (result
             @ service_group '' ClusterIP Services:'' clusterIPServices
             @ service_group '' NodePort Services:'' nodePortServices
             @ service_group '' LoadBalancer Services:'' loadBalancerServices
             @ service_group '' Headless Services:'' headlessServices
             @ ''Next step: Use 'get-pods-by-service' to find pods backing any of these services'' @ [nl]
             @ ''   Example: get-pods-by-service --namespace '' @ namespace
               @ '' --service <service-name>'' @ [nl]))))"

text \<open>The pictograms of the pod report, byte for byte as the source file has them.\<close>

definition icon_cross :: string where
  "icon_cross = [CHR 0xC3, CHR 0xA2, CHR 0xC5, CHR 0x92]"

definition icon_check :: string where
  "icon_check = [CHR 0xC3, CHR 0xA2, CHR 0xC5, CHR 0x93, CHR 0xE2, CHR 0x80, CHR 0xA6]"

definition icon_link :: string where
  "icon_link = [CHR 0xC3, CHR 0xB0, CHR 0xC5, CHR 0xB8, CHR 0xE2, CHR 0x80, CHR 0x9D,
                CHR 0xE2, CHR 0x80, CHR 0x94]"

definition icon_web :: string where
  "icon_web = [CHR 0xC3, CHR 0xB0, CHR 0xC5, CHR 0xB8, CHR 0xE2, CHR 0x80, CHR 0xA2,
               CHR 0xC2, CHR 0xB8, CHR 0xC3, CHR 0xAF, CHR 0xC2, CHR 0xB8]"

definition icon_warn :: string where
  "icon_warn = [CHR 0xC3, CHR 0xA2, CHR 0xC5, CHR 0xA1, CHR 0xC2, CHR 0xA0, CHR 0xC3,
                CHR 0xAF, CHR 0xC2, CHR 0xB8]"

definition icon_wait :: string where
  "icon_wait = [CHR 0xC3, CHR 0xA2, CHR 0xC2, CHR 0xB3]"

definition icon_bulb :: string where
  "icon_bulb = [CHR 0xC3, CHR 0xB0, CHR 0xC5, CHR 0xB8, CHR 0xE2, CHR 0x80, CHR 0x99,
                CHR 0xC2, CHR 0xA1]"

definition isPodReady :: "Pod \<Rightarrow> bool" where
  "isPodReady pod =
     (case find (\<lambda>c. cond_Type c = ''Ready'') (pod_Conditions pod) of
        Some c \<Rightarrow> cond_Status c = ''True''
      | None \<Rightarrow> False)"

definition endpoint_line :: "EndpointAddress \<Rightarrow> string" where
  "endpoint_line addr =
     (case addr_TargetRef addr of
        Some r \<Rightarrow>
          if ref_Kind r = ''Pod''
          then ''   - Pod: '' @ ref_Name r @ '' (IP: '' @ addr_IP addr @ '')'' @ [nl]
          else ''   - IP: '' @ addr_IP addr @ [nl]
      | None \<Rightarrow> ''   - IP: '' @ addr_IP addr @ [nl])"

definition running_pod_block :: "Pod \<Rightarrow> string" where
  "running_pod_block pod =
     (let hasIstio = (''istio-proxy'' \<in> set (pod_Containers pod));
          readyIcon = (if isPodReady pod then icon_check else icon_cross);
          istioIcon = (if hasIstio then icon_web else icon_link);
          appContainers = filter (\<lambda>c. c \<noteq> ''istio-proxy'') (pod_Containers pod)
      in ''   '' @ readyIcon @ '' '' @ istioIcon @ '' '' @ pod_Name pod @ [nl]
         @ ''      IP: '' @ pad_right 15 (pod_PodIP pod) @ '' Node: '' @ pod_NodeName pod @ [nl]
         @ ''      Containers: '' @ join '', '' appContainers @ [nl]
         @ (if hasIstio then ''      '' @ icon_web @ ''  Istio mesh: ENABLED'' @ [nl]
            else ''      '' @ icon_warn @ ''  Istio mesh: NOT ENABLED'' @ [nl])
         @ [nl])"

text \<open>
  \<open>GetPodsByService\<close> builds the label selector by ranging over the service's selector
  map; the order of that iteration is the runtime's (\<open>range_labels\<close>).
\<close>

definition GetPodsByService :: "host \<Rightarrow> Istio \<Rightarrow> string \<Rightarrow> string \<Rightarrow> string traced" where
  "GetPodsByService h i namespace serviceName =
     (case Services_Get (kubeClient i) namespace serviceName of
        Inl err \<Rightarrow>
          ([GetService namespace serviceName],
           Inl (wrap (''failed to get service '' @ serviceName @ '': '') err))
      | Inr service \<Rightarrow>
     (let result = ''Pods backing service '' @ quoted serviceName @ '' in namespace ''
                   @ quoted namespace @ '':'' @ [nl, nl]
      in
      case svc_Selector service of
        None \<Rightarrow>
          ([GetService namespace serviceName, GetEndpoints namespace serviceName],
           Inr (result
                @ ''  Service '' @ quoted serviceName @ '' has no selector - this is likely:'' @ [nl]
                @ ''   - A headless service with manual endpoints'' @ [nl]
                @ ''   - An external service (ExternalName type)'' @ [nl]
                @ ''   - A service with manually configured endpoints'' @ [nl, nl]
                @ (case Endpoints_Get (kubeClient i) namespace serviceName of
                     Inl _ \<Rightarrow> []
                   | Inr endpoints \<Rightarrow>
                       if length (ep_Subsets endpoints) > 0
                       then '' Configured endpoints:'' @ [nl]
                            @ concat (map (\<lambda>subset. concat (map endpoint_line (sub_Addresses subset)))
                                          (ep_Subsets endpoints))
                       else [])))
      | Some selector \<Rightarrow>
     (let selectorParts = map (\<lambda>(key, val). key @ ''='' @ val) (range_labels h selector);
          labelSelector = join '','' selectorParts
      in
      case Pods_List (kubeClient i) namespace labelSelector [] of
        Inl err \<Rightarrow>
          ([GetService namespace serviceName, ListPods namespace labelSelector []],
           Inl (wrap (''failed to list pods for service '' @ serviceName @ '': '') err))
      | Inr pods \<Rightarrow>
     (let runningPods = filter (\<lambda>pod. pod_Phase pod = ''Running'') pods;
          nonRunningPods = filter (\<lambda>pod. pod_Phase pod \<noteq> ''Running'') pods;
          result = result
            @ '' Service selector: '' @ labelSelector @ [nl]
            @ '' Total pods found: '' @ itoa (length pods) @ '' ('' @ itoa (length runningPods)
              @ '' running, '' @ itoa (length nonRunningPods) @ '' not running)'' @ [nl, nl]
            @ (if length runningPods > 0
               then '' Running pods ('' @ itoa (length runningPods) @ '') - Ready for proxy commands:'' @ [nl]
                    @ concat (map running_pod_block runningPods)
               else [])
            @ (if length nonRunningPods > 0
               then icon_wait @ '' Non-running pods ('' @ itoa (length nonRunningPods) @ ''):'' @ [nl]
                    @ concat (map (\<lambda>pod. ''   '' @ icon_cross @ '' '' @ pod_Name pod @ '' (Status: ''
                                           @ pod_Phase pod @ '')'' @ [nl]) nonRunningPods)
                    @ [nl]
               else [])
      in
      ([GetService namespace serviceName, ListPods namespace labelSelector []],
       case runningPods of
         [] \<Rightarrow>
           Inr (result
                @ icon_warn @ ''  No running pods found backing this service!'' @ [nl]
                @ icon_bulb @ '' This could mean:'' @ [nl]
                @ ''   - The deployment is scaled to 0 replicas'' @ [nl]
                @ ''   - Pods are failing to start'' @ [nl]
                @ ''   - Label selector mismatch between service and pods'' @ [nl, nl])
       | first # _ \<Rightarrow>
           (let examplePod = pod_Name first
            in Inr (result
                @ icon_bulb @ '' Next steps - Use these pod names with proxy commands:'' @ [nl]
                @ ''   get-proxy-status --namespace '' @ namespace @ '' --pod '' @ examplePod @ [nl]
                @ ''   get-proxy-clusters --namespace '' @ namespace @ '' --pod '' @ examplePod @ [nl]
                @ ''   get-proxy-listeners --namespace '' @ namespace @ '' --pod '' @ examplePod @ [nl]
                @ ''   get-proxy-routes --namespace '' @ namespace @ '' --pod '' @ examplePod @ [nl])))))))"

subsection \<open>Namespace discovery\<close>

fun incr :: "string \<Rightarrow> (string \<times> nat) list \<Rightarrow> (string \<times> nat) list" where
  "incr k [] = [(k, 1)]"
| "incr k ((k', n) # m) = (if k = k' then (k', n + 1) # m else (k', n) # incr k m)"

definition count_sidecars :: "Pod list \<Rightarrow> (string \<times> nat) list" where
  "count_sidecars pods =
     foldl (\<lambda>m pod.
              if pod_Phase pod \<noteq> ''Running'' \<or> length (pod_Containers pod) = 0 then m
              else if ''istio-proxy'' \<in> set (pod_Containers pod) then incr (pod_Namespace pod) m
              else m)
           [] pods"

text \<open>
  \<open>sort.Slice\<close> with the comparator of the source: higher count first, then namespace
  name ascending. The comparator is a strict total order on entries with distinct
  namespaces, so the sorted slice is the same whatever algorithm sorts it.
\<close>

definition nc_less :: "string \<times> nat \<Rightarrow> string \<times> nat \<Rightarrow> bool" where
  "nc_less a b = (if snd a \<noteq> snd b then snd a > snd b else fst a < fst b)"

fun insert_by :: "('a \<Rightarrow> 'a \<Rightarrow> bool) \<Rightarrow> 'a \<Rightarrow> 'a list \<Rightarrow> 'a list" where
  "insert_by lt x [] = [x]"
| "insert_by lt x (y # ys) = (if lt x y then x # y # ys else y # insert_by lt x ys)"

definition sort_Slice :: "('a \<Rightarrow> 'a \<Rightarrow> bool) \<Rightarrow> 'a list \<Rightarrow> 'a list" where
  "sort_Slice lt xs = foldr (insert_by lt) xs []"

definition recommendation :: "nat \<Rightarrow> string" where
  "recommendation rank =
     (if rank = 0 then ''BEST - Most Istio-injected workloads''
      else if rank < 3 then ''Good - High Istio adoption''
      else if rank < 5 then ''Moderate - Some Istio usage''
      else ''Low - Minimal Istio usage'')"

definition DiscoverNamespacesWithSidecars :: "host \<Rightarrow> Istio \<Rightarrow> string traced" where
  "DiscoverNamespacesWithSidecars h i =
     ([ListPods [] [] ''status.phase=Running''],
      case Pods_List (kubeClient i) [] [] ''status.phase=Running'' of
        Inl err \<Rightarrow> Inl (wrap ''failed to list running pods for Istio sidecar discovery: '' err)
      | Inr pods \<Rightarrow>
     (let namespacesWithSidecars = count_sidecars pods
      in
      if length namespacesWithSidecars = 0 then Inr ''No namespaces with Istio sidecars found''
      else
       (let namespaceCounts = sort_Slice nc_less (range_counts h namespacesWithSidecars)
        in
        Inr (''Found '' @ itoa (length namespaceCounts) @ '' namespaces with Istio sidecars:'' @ [nl, nl]
             @ ''Rank | Namespace | Sidecar Count | Recommendation'' @ [nl]
             @ ''-----|-----------|---------------|----------------'' @ [nl]
             @ concat (map (\<lambda>(rank, nc).
                              pad_left 4 (itoa (rank + 1)) @ '' | '' @ pad_right 9 (fst nc) @ '' | ''
                              @ pad_left 13 (itoa (snd nc)) @ '' | '' @ recommendation rank @ [nl])
                           (zip [0..<length namespaceCounts] namespaceCounts))
             @ [nl] @ icon_bulb
             @ '' **Recommendation**: Start with the top-ranked namespace for Istio operations as it likely contains the most Istio configuration and traffic.''))))"

subsection \<open>Watching the kubeconfig\<close>

text \<open>
  The file watchers of the process: the identity the next watcher will get, the
  watchers that are open with the files each one watches, and the log of the calls of
  \<open>Close\<close>. Each open watcher runs the goroutine that \<open>WatchKubeConfig\<close> started for
  it, which calls the callback for every event of that watcher; the only callback the
  program ever registers is the server's \<open>reloadIstioClient\<close>.
\<close>

record watchers =
  next_watcher :: nat
  open_watchers :: "(nat \<times> string list) list"
  close_calls :: "nat list"

definition watcher_Close :: "nat \<Rightarrow> watchers \<Rightarrow> watchers" where
  "watcher_Close w ws =
     ws\<lparr>open_watchers := filter (\<lambda>(w', _). w' \<noteq> w) (open_watchers ws),
        close_calls := close_calls ws @ [w]\<rparr>"

definition WatchKubeConfig :: "libs \<Rightarrow> Istio \<Rightarrow> watchers \<Rightarrow> Istio \<times> watchers" where
  "WatchKubeConfig l i ws =
     (case clientCmdConfig i of
        None \<Rightarrow> (i, ws)
      | Some cc \<Rightarrow>
     (case ConfigAccess cc of
        None \<Rightarrow> (i, ws)
      | Some kubeConfigFiles \<Rightarrow>
          if length kubeConfigFiles = 0 then (i, ws)
          else
     (case fsnotify_NewWatcher l of
        Some _ \<Rightarrow> (i, ws)
      | None \<Rightarrow>
     (let watcher = next_watcher ws;
          watched = filter (\<lambda>file. watcher_Add l file = None) kubeConfigFiles;
          ws1 = ws\<lparr>next_watcher := watcher + 1,
                   open_watchers := open_watchers ws @ [(watcher, watched)]\<rparr>;
          ws2 = (case CloseWatchKubeConfig i of
                   Some previous \<Rightarrow> watcher_Close previous ws1
                 | None \<Rightarrow> ws1)
      in (i\<lparr>CloseWatchKubeConfig := Some watcher\<rparr>, ws2)))))"

definition Close_Istio :: "Istio \<Rightarrow> watchers \<Rightarrow> watchers" where
  "Close_Istio i ws =
     (case CloseWatchKubeConfig i of
        Some w \<Rightarrow> watcher_Close w ws
      | None \<Rightarrow> ws)"

section \<open>Tool handlers (package mcp, profile.go)\<close>

text \<open>
  The argument map of a call holds decoded JSON values. A handler reads a string
  parameter with \<open>if v := args[key]; v != nil { x = v.(string) }\<close>: a missing key and a
  JSON null leave the default, a string replaces it, and any other value makes the type
  assertion panic. A panic is \<open>None\<close>.
\<close>

datatype jvalue = JNull | JString string | JBool bool | JNumber int | JOther

type_synonym arguments = "string \<rightharpoonup> jvalue"

definition stringArg :: "arguments \<Rightarrow> string \<Rightarrow> string \<Rightarrow> string option" where
  "stringArg args key dflt =
     (case args key of
        None \<Rightarrow> Some dflt
      | Some JNull \<Rightarrow> Some dflt
      | Some (JString s) \<Rightarrow> Some s
      | Some _ \<Rightarrow> None)"

text \<open>
  A handler runs against the host and the server's current handle \<open>s.i\<close>, which it
  reads when it is called. It returns the calls it issued and the envelope.
\<close>

type_synonym handler = "host \<Rightarrow> Istio \<Rightarrow> arguments \<Rightarrow> (call list \<times> CallToolResult) option"

definition textResult :: "string traced \<Rightarrow> call list \<times> CallToolResult" where
  "textResult r =
     (fst r,
      case snd r of
        Inl err \<Rightarrow> NewTextResult [] (Some err)
      | Inr content \<Rightarrow> NewTextResult content None)"

definition errorResult :: "string \<Rightarrow> call list \<times> CallToolResult" where
  "errorResult msg = ([], NewTextResult [] (Some (Error msg)))"

definition getVirtualServices :: handler where
  "getVirtualServices h i args =
     do { namespace \<leftarrow> stringArg args ''namespace'' ''default'';
          Some (textResult (GetVirtualServices i namespace)) }"

definition getDestinationRules :: handler where
  "getDestinationRules h i args =
     do { namespace \<leftarrow> stringArg args ''namespace'' ''default'';
          Some (textResult (GetDestinationRules i namespace)) }"

definition getGateways :: handler where
  "getGateways h i args =
     do { namespace \<leftarrow> stringArg args ''namespace'' ''default'';
          Some (textResult (GetGateways i namespace)) }"

definition getServiceEntries :: handler where
  "getServiceEntries h i args =
     do { namespace \<leftarrow> stringArg args ''namespace'' ''default'';
          Some (textResult (GetServiceEntries i namespace)) }"

definition getAuthorizationPolicies :: handler where
  "getAuthorizationPolicies h i args =
     do { namespace \<leftarrow> stringArg args ''namespace'' ''default'';
          Some (textResult (GetAuthorizationPolicies i namespace)) }"

definition getPeerAuthentications :: handler where
  "getPeerAuthentications h i args =
     do { namespace \<leftarrow> stringArg args ''namespace'' ''default'';
          Some (textResult (GetPeerAuthentications i namespace)) }"

definition getEnvoyFilters :: handler where
  "getEnvoyFilters h i args =
     do { namespace \<leftarrow> stringArg args ''namespace'' ''default'';
          Some (textResult (GetEnvoyFilters i namespace)) }"

definition getTelemetries :: handler where
  "getTelemetries h i args =
     do { namespace \<leftarrow> stringArg args ''namespace'' ''default'';
          Some (textResult (GetTelemetries i namespace)) }"

definition getIstioConfigSummary :: handler where
  "getIstioConfigSummary h i args =
     do { namespace \<leftarrow> stringArg args ''namespace'' ''default'';
          Some (textResult (GetIstioConfigSummary i namespace)) }"

definition checkExternalDependencyAvailability :: handler where
  "checkExternalDependencyAvailability h i args =
     do { serviceName \<leftarrow> stringArg args ''service-name'' [];
          if serviceName = [] then Some (errorResult ''service-name is required'')
          else do {
            externalHost \<leftarrow> stringArg args ''external-host'' [];
            if externalHost = [] then Some (errorResult ''external-host is required'')
            else do {
              namespace \<leftarrow> stringArg args ''namespace'' ''default'';
              Some (textResult (CheckExternalDependencyAvailability i serviceName externalHost namespace))
            }
          }
        }"

definition discoverIstioNamespaces :: handler where
  "discoverIstioNamespaces h i args = Some (textResult (DiscoverNamespacesWithSidecars h i))"

definition getProxyClusters :: handler where
  "getProxyClusters h i args =
     do { namespace \<leftarrow> stringArg args ''namespace'' ''default'';
          podName \<leftarrow> stringArg args ''pod'' [];
          if podName = [] then Some (errorResult ''pod name is required'')
          else Some (textResult (GetClusters h (ProxyConfig i) namespace podName)) }"

definition getProxyListeners :: handler where
  "getProxyListeners h i args =
     do { namespace \<leftarrow> stringArg args ''namespace'' ''default'';
          podName \<leftarrow> stringArg args ''pod'' [];
          if podName = [] then Some (errorResult ''pod name is required'')
          else Some (textResult (GetListeners h (ProxyConfig i) namespace podName)) }"

definition getProxyRoutes :: handler where
  "getProxyRoutes h i args =
     do { namespace \<leftarrow> stringArg args ''namespace'' ''default'';
          podName \<leftarrow> stringArg args ''pod'' [];
          if podName = [] then Some (errorResult ''pod name is required'')
          else Some (textResult (GetRoutes h (ProxyConfig i) namespace podName)) }"

definition getProxyEndpoints :: handler where
  "getProxyEndpoints h i args =
     do { namespace \<leftarrow> stringArg args ''namespace'' ''default'';
          podName \<leftarrow> stringArg args ''pod'' [];
          if podName = [] then Some (errorResult ''pod name is required'')
          else Some (textResult (GetEndpoints_pc h (ProxyConfig i) namespace podName)) }"

definition getProxyBootstrap :: handler where
  "getProxyBootstrap h i args =
     do { namespace \<leftarrow> stringArg args ''namespace'' ''default'';
          podName \<leftarrow> stringArg args ''pod'' [];
          if podName = [] then Some (errorResult ''pod name is required'')
          else Some (textResult (GetBootstrap h (ProxyConfig i) namespace podName)) }"

definition getProxyConfigDump :: handler where
  "getProxyConfigDump h i args =
     do { namespace \<leftarrow> stringArg args ''namespace'' ''default'';
          podName \<leftarrow> stringArg args ''pod'' [];
          if podName = [] then Some (errorResult ''pod name is required'')
          else Some (textResult (GetConfigDump h (ProxyConfig i) namespace podName)) }"

definition getProxyStatus :: handler where
  "getProxyStatus h i args =
     do { namespace \<leftarrow> stringArg args ''namespace'' [];
          podName \<leftarrow> stringArg args ''pod'' [];
          if podName \<noteq> [] \<and> namespace \<noteq> []
          then Some (textResult (GetProxyStatusForPod h (ProxyConfig i) namespace podName))
          else Some (textResult (GetProxyStatus h (ProxyConfig i))) }"

definition getIstioAnalyze :: handler where
  "getIstioAnalyze h i args =
     do { namespace \<leftarrow> stringArg args ''namespace'' [];
          Some (textResult (GetAnalyze h (ProxyConfig i) namespace)) }"

definition getServices :: handler where
  "getServices h i args =
     do { namespace \<leftarrow> stringArg args ''namespace'' ''default'';
          Some (textResult (GetServices i namespace)) }"

definition getPodsByService :: handler where
  "getPodsByService h i args =
     do { namespace \<leftarrow> stringArg args ''namespace'' ''default'';
          serviceName \<leftarrow> stringArg args ''service'' [];
          if serviceName = []
          then Some (errorResult
                 ''service name is required - use 'get-services' first to discover available services'')
          else Some (textResult (GetPodsByService h i namespace serviceName)) }"

section \<open>The tool catalog\<close>

text \<open>
  \<open>mcp.NewTool\<close> and its options belong to the MCP library: a tool starts from the
  library's default annotations (the parameter \<open>base\<close>), and the options are applied in
  order. \<open>WithString\<close> declares a string property, with the description its
  options set, and appends it to the required list when \<open>Required\<close> is among them.
\<close>

record ToolAnnotation =
  ann_Title :: string
  ann_ReadOnlyHint :: "bool option"
  ann_DestructiveHint :: "bool option"
  ann_IdempotentHint :: "bool option"
  ann_OpenWorldHint :: "bool option"

record Tool =
  tool_Name :: string
  tool_Description :: string
  tool_Properties :: "string \<rightharpoonup> string"
  tool_Required :: "string list"
  tool_Annotations :: ToolAnnotation

datatype PropertyOption = Description string | Required

datatype ToolOption =
    WithDescription string
  | WithString string "PropertyOption list"
  | WithTitleAnnotation string
  | WithReadOnlyHintAnnotation bool
  | WithDestructiveHintAnnotation bool

fun apply_property_option :: "string \<times> bool \<Rightarrow> PropertyOption \<Rightarrow> string \<times> bool" where
  "apply_property_option (d, r) (Description d') = (d', r)"
| "apply_property_option (d, r) Required = (d, True)"

fun apply_option :: "Tool \<Rightarrow> ToolOption \<Rightarrow> Tool" where
  "apply_option t (WithDescription d) = t\<lparr>tool_Description := d\<rparr>"
| "apply_option t (WithString name ps) =
     (let (d, r) = foldl apply_property_option ([], False) ps
      in t\<lparr>tool_Properties := (tool_Properties t)(name \<mapsto> d),
           tool_Required := (if r then tool_Required t @ [name] else tool_Required t)\<rparr>)"
| "apply_option t (WithTitleAnnotation title) =
     t\<lparr>tool_Annotations := (tool_Annotations t)\<lparr>ann_Title := title\<rparr>\<rparr>"
| "apply_option t (WithReadOnlyHintAnnotation v) =
     t\<lparr>tool_Annotations := (tool_Annotations t)\<lparr>ann_ReadOnlyHint := Some v\<rparr>\<rparr>"
| "apply_option t (WithDestructiveHintAnnotation v) =
     t\<lparr>tool_Annotations := (tool_Annotations t)\<lparr>ann_DestructiveHint := Some v\<rparr>\<rparr>"

definition NewTool :: "ToolAnnotation \<Rightarrow> string \<Rightarrow> ToolOption list \<Rightarrow> Tool" where
  "NewTool base name opts =
     foldl apply_option
       \<lparr>tool_Name = name, tool_Description = [], tool_Properties = Map.empty,
        tool_Required = [], tool_Annotations = base\<rparr>
       opts"

record ServerTool =
  st_Tool :: Tool
  st_Handler :: handler

text \<open>The two non-ASCII characters of one description (an arrow, three bytes in UTF-8).\<close>

definition arrow :: string where
  "arrow = [CHR 0xE2, CHR 0x86, CHR 0x92]"

definition initNetworkingTools :: "ToolAnnotation \<Rightarrow> ServerTool list" where
  "initNetworkingTools base =
     [\<lparr>st_Tool = NewTool base ''get-virtual-services''
         [WithDescription
          ''Get Istio Virtual Services configuration from any namespace. Virtual Services define routing rules for services in the Istio service mesh, including traffic splitting, fault injection, and retry policies. Use this to inspect traffic routing configuration across namespaces.'',
          WithString ''namespace''
            [Description
             ''Namespace to query (defaults to 'default'). Istio services can span multiple namespaces.''],
          WithTitleAnnotation ''Istio: Virtual Services'',
          WithReadOnlyHintAnnotation True,
          WithDestructiveHintAnnotation False],
       st_Handler = getVirtualServices\<rparr>,
      \<lparr>st_Tool = NewTool base ''get-destination-rules''
         [WithDescription
          ''Get Istio Destination Rules from any namespace. Destination Rules define policies for traffic to services, including load balancing, connection pooling, and outlier detection. Essential for understanding service mesh traffic policies.'',
          WithString ''namespace''
            [Description
             ''Namespace to query (defaults to 'default'). Check multiple namespaces for complete Istio configuration.''],
          WithTitleAnnotation ''Istio: Destination Rules'',
          WithReadOnlyHintAnnotation True,
          WithDestructiveHintAnnotation False],
       st_Handler = getDestinationRules\<rparr>,
      \<lparr>st_Tool = NewTool base ''get-gateways''
         [WithDescription
          ''Get Istio Gateways from any namespace. Gateways configure load balancers for incoming traffic to the service mesh. Use this to inspect ingress/egress configuration and external access patterns.'',
          WithString ''namespace''
            [Description
             ''Namespace to query (defaults to 'default'). Gateway configurations may exist in ingress or dedicated namespaces.''],
          WithTitleAnnotation ''Istio: Gateways'',
          WithReadOnlyHintAnnotation True,
          WithDestructiveHintAnnotation False],
       st_Handler = getGateways\<rparr>,
      \<lparr>st_Tool = NewTool base ''get-service-entries''
         [WithDescription
          ''Get Istio Service Entries from any namespace. Service Entries allow adding external services to the service mesh registry. Use this to inspect external service configurations and mesh expansion settings.'',
          WithString ''namespace''
            [Description
             ''Namespace to query (defaults to 'default'). External service configurations may be centralized in specific namespaces.''],
          WithTitleAnnotation ''Istio: Service Entries'',
          WithReadOnlyHintAnnotation True,
          WithDestructiveHintAnnotation False],
       st_Handler = getServiceEntries\<rparr>]"

definition initSecurityTools :: "ToolAnnotation \<Rightarrow> ServerTool list" where
  "initSecurityTools base =
     [\<lparr>st_Tool = NewTool base ''get-authorization-policies''
         [WithDescription
          ''Get Istio Authorization Policies from any namespace. Authorization Policies control access to services in the Istio service mesh, defining who can access what resources. Use this to inspect security policies and access control configurations across namespaces.'',
          WithString ''namespace''
            [Description
             ''Namespace to query (defaults to 'default'). Security policies may be defined in multiple namespaces for different service boundaries.''],
          WithTitleAnnotation ''Istio: Authorization Policies'',
          WithReadOnlyHintAnnotation True,
          WithDestructiveHintAnnotation False],
       st_Handler = getAuthorizationPolicies\<rparr>,
      \<lparr>st_Tool = NewTool base ''get-peer-authentications''
         [WithDescription
          ''Get Istio Peer Authentications from any namespace. Peer Authentication policies define mutual TLS settings and authentication requirements for service-to-service communication. Use this to inspect mTLS configuration and security posture.'',
          WithString ''namespace''
            [Description
             ''Namespace to query (defaults to 'default'). Authentication policies may be namespace-specific or inherited from mesh-wide settings.''],
          WithTitleAnnotation ''Istio: Peer Authentications'',
          WithReadOnlyHintAnnotation True,
          WithDestructiveHintAnnotation False],
       st_Handler = getPeerAuthentications\<rparr>]"

definition initConfigurationTools :: "ToolAnnotation \<Rightarrow> ServerTool list" where
  "initConfigurationTools base =
     [\<lparr>st_Tool = NewTool base ''discover-istio-namespaces''
         [WithDescription
          ''Discover namespaces that have pods with Istio sidecars and rank them by injection density. This tool helps identify the most probable best namespace for Istio operations by analyzing which namespaces have the most Istio-injected workloads. Use this to prioritize which namespaces to investigate first for Istio configuration and traffic analysis.'',
          WithTitleAnnotation ''Istio: Namespace Discovery'',
          WithReadOnlyHintAnnotation True,
          WithDestructiveHintAnnotation False],
       st_Handler = discoverIstioNamespaces\<rparr>,
      \<lparr>st_Tool = NewTool base ''get-envoy-filters''
         [WithDescription
          ''Get Istio Envoy Filters from any namespace. Envoy Filters allow custom configuration of Envoy proxy behavior, including custom filters, listeners, and clusters. Use this to inspect advanced Istio service mesh configurations.'',
          WithString ''namespace''
            [Description
             ''Namespace to query (defaults to 'default'). Custom Envoy configurations may be applied to specific namespaces or workloads.''],
          WithTitleAnnotation ''Istio: Envoy Filters'',
          WithReadOnlyHintAnnotation True,
          WithDestructiveHintAnnotation False],
       st_Handler = getEnvoyFilters\<rparr>,
      \<lparr>st_Tool = NewTool base ''get-telemetry''
         [WithDescription
          ''Get Istio Telemetry configurations from any namespace. Telemetry policies define observability settings including metrics, tracing, and logging for the service mesh. Use this to inspect monitoring and observability configurations.'',
          WithString ''namespace''
            [Description
             ''Namespace to query (defaults to 'default'). Telemetry policies may be namespace-specific or inherited from mesh-wide settings.''],
          WithTitleAnnotation ''Istio: Telemetry'',
          WithReadOnlyHintAnnotation True,
          WithDestructiveHintAnnotation False],
       st_Handler = getTelemetries\<rparr>,
      \<lparr>st_Tool = NewTool base ''get-istio-config''
         [WithDescription
          ''Get comprehensive Istio configuration summary for any namespace. This provides an overview of all Istio resources including Virtual Services, Destination Rules, Gateways, Security Policies, and more. Use this for complete Istio service mesh configuration analysis.'',
          WithString ''namespace''
            [Description
             ''Namespace to query (defaults to 'default'). Provides complete Istio configuration overview for the specified namespace.''],
          WithTitleAnnotation ''Istio: Configuration Summary'',
          WithReadOnlyHintAnnotation True,
          WithDestructiveHintAnnotation False],
       st_Handler = getIstioConfigSummary\<rparr>,
      \<lparr>st_Tool = NewTool base ''check-external-dependency-availability''
         [WithDescription
          ''Check if an external dependency (like RDS, S3, etc.) is properly configured and accessible for a specific service. This tool validates that all required Istio resources (Service Entries, Virtual Services, Destination Rules, Authorization Policies) exist and are properly configured to allow the service to access the external dependency.'',
          WithString ''service-name''
            [Description
             ''Name of the service that needs to access the external dependency'',
             Required],
          WithString ''external-host''
            [Description
             ''External hostname to check (e.g., 'rds.amazonaws.com', 's3.amazonaws.com')'',
             Required],
          WithString ''namespace''
            [Description
             ''Namespace of the service (defaults to 'default'). The tool will check for Istio resources in this namespace and globally.''],
          WithTitleAnnotation ''Istio: External Dependency Check'',
          WithReadOnlyHintAnnotation True,
          WithDestructiveHintAnnotation False],
       st_Handler = checkExternalDependencyAvailability\<rparr>,
      \<lparr>st_Tool = NewTool base ''get-services''
         [WithDescription
          ''List all Kubernetes services in a namespace. This is the first step in the workflow to find pods for proxy commands: 1) Use this tool to discover available services, 2) Then use 'get-pods-by-service' to find the specific pods backing a service, 3) Finally use proxy commands (get-proxy-clusters, get-proxy-status, etc.) with the discovered pod names. Perfect for understanding the service landscape before diving into Istio proxy configuration.'',
          WithString ''namespace''
            [Description
             ''Namespace to list services from (defaults to 'default'). Services are the entry points to your applications.''],
          WithTitleAnnotation ''Kubernetes: Service Discovery'',
          WithReadOnlyHintAnnotation True,
          WithDestructiveHintAnnotation False],
       st_Handler = getServices\<rparr>,
      \<lparr>st_Tool = NewTool base ''get-pods-by-service''
         [WithDescription
          (''Find all pods backing a specific Kubernetes service - essential for the proxy command workflow. After discovering services with 'get-services', use this tool to find the exact pod names you need for Istio proxy commands. Shows running vs non-running pods, Istio sidecar status, and provides ready-to-use pod names for proxy debugging commands like get-proxy-clusters, get-proxy-status, get-proxy-listeners, etc. This is step 2 in the service'' @ arrow @ ''pod'' @ arrow @ ''proxy command workflow.''),
          WithString ''namespace''
            [Description
             ''Namespace containing the service (defaults to 'default')''],
          WithString ''service''
            [Description
             ''Service name to find backing pods for (use 'get-services' first to discover available services)'',
             Required],
          WithTitleAnnotation ''Kubernetes: Service Pod Discovery'',
          WithReadOnlyHintAnnotation True,
          WithDestructiveHintAnnotation False],
       st_Handler = getPodsByService\<rparr>]"

definition initProxyConfigTools :: "ToolAnnotation \<Rightarrow> ServerTool list" where
  "initProxyConfigTools base =
     [\<lparr>st_Tool = NewTool base ''get-proxy-clusters''
         [WithDescription
          ''Get Envoy cluster configuration from any Istio proxy pod. Clusters represent upstream services and their load balancing settings. Use this for debugging service connectivity and load balancing issues in the Istio service mesh.'',
          WithString ''namespace''
            [Description
             ''Namespace of the pod (defaults to 'default'). Istio proxies can be in any namespace where services are deployed.''],
          WithString ''pod''
            [Description
             ''Pod name containing the Istio proxy (sidecar)'',
             Required],
          WithTitleAnnotation ''Istio: Proxy Clusters'',
          WithReadOnlyHintAnnotation True,
          WithDestructiveHintAnnotation False],
       st_Handler = getProxyClusters\<rparr>,
      \<lparr>st_Tool = NewTool base ''get-proxy-listeners''
         [WithDescription
          ''Get Envoy listener configuration from any Istio proxy pod. Listeners define how the proxy accepts incoming connections. Use this for debugging network connectivity and port binding issues in the service mesh.'',
          WithString ''namespace''
            [Description
             ''Namespace of the pod (defaults to 'default'). Check the namespace where your service pods are deployed.''],
          WithString ''pod''
            [Description
             ''Pod name containing the Istio proxy (sidecar)'',
             Required],
          WithTitleAnnotation ''Istio: Proxy Listeners'',
          WithReadOnlyHintAnnotation True,
          WithDestructiveHintAnnotation False],
       st_Handler = getProxyListeners\<rparr>,
      \<lparr>st_Tool = NewTool base ''get-proxy-routes''
         [WithDescription
          ''Get Envoy route configuration from any Istio proxy pod. Routes define how requests are matched and routed to clusters. Use this for debugging traffic routing and Virtual Service configuration issues.'',
          WithString ''namespace''
            [Description
             ''Namespace of the pod (defaults to 'default'). Route configurations reflect Virtual Service rules applied to the pod.''],
          WithString ''pod''
            [Description
             ''Pod name containing the Istio proxy (sidecar)'',
             Required],
          WithTitleAnnotation ''Istio: Proxy Routes'',
          WithReadOnlyHintAnnotation True,
          WithDestructiveHintAnnotation False],
       st_Handler = getProxyRoutes\<rparr>,
      \<lparr>st_Tool = NewTool base ''get-proxy-endpoints''
         [WithDescription
          ''Get Envoy endpoint configuration from any Istio proxy pod. Endpoints represent the actual instances of upstream services. Use this for debugging service discovery and endpoint health issues.'',
          WithString ''namespace''
            [Description
             ''Namespace of the pod (defaults to 'default'). Endpoint configurations show service discovery results.''],
          WithString ''pod''
            [Description
             ''Pod name containing the Istio proxy (sidecar)'',
             Required],
          WithTitleAnnotation ''Istio: Proxy Endpoints'',
          WithReadOnlyHintAnnotation True,
          WithDestructiveHintAnnotation False],
       st_Handler = getProxyEndpoints\<rparr>,
      \<lparr>st_Tool = NewTool base ''get-proxy-bootstrap''
         [WithDescription
          ''Get Envoy bootstrap configuration from any Istio proxy pod. Bootstrap config contains the initial proxy configuration including admin interface settings. Use this for debugging proxy startup and configuration issues.'',
          WithString ''namespace''
            [Description
             ''Namespace of the pod (defaults to 'default'). Bootstrap config is generated during proxy initialization.''],
          WithString ''pod''
            [Description
             ''Pod name containing the Istio proxy (sidecar)'',
             Required],
          WithTitleAnnotation ''Istio: Proxy Bootstrap'',
          WithReadOnlyHintAnnotation True,
          WithDestructiveHintAnnotation False],
       st_Handler = getProxyBootstrap\<rparr>,
      \<lparr>st_Tool = NewTool base ''get-proxy-config-dump''
         [WithDescription
          ''Get full Envoy configuration dump from any Istio proxy pod. This provides complete proxy configuration including all listeners, clusters, routes, and endpoints. Use this for comprehensive Istio proxy debugging and troubleshooting.'',
          WithString ''namespace''
            [Description
             ''Namespace of the pod (defaults to 'default'). Full config dump shows complete proxy state.''],
          WithString ''pod''
            [Description
             ''Pod name containing the Istio proxy (sidecar)'',
             Required],
          WithTitleAnnotation ''Istio: Proxy Config Dump'',
          WithReadOnlyHintAnnotation True,
          WithDestructiveHintAnnotation False],
       st_Handler = getProxyConfigDump\<rparr>,
      \<lparr>st_Tool = NewTool base ''get-proxy-status''
         [WithDescription
          ''Get proxy status information for all Istio proxies or a specific pod. Shows proxy sync status, configuration version, and connectivity health. Use this to monitor Istio service mesh health and configuration distribution.'',
          WithString ''namespace''
            [Description
             ''Namespace of the pod (optional). If specified, shows status for proxies in that namespace only.''],
          WithString ''pod''
            [Description
             ''Pod name (optional, if not provided shows all proxies). Use this to check specific proxy sync status.''],
          WithTitleAnnotation ''Istio: Proxy Status'',
          WithReadOnlyHintAnnotation True,
          WithDestructiveHintAnnotation False],
       st_Handler = getProxyStatus\<rparr>,
      \<lparr>st_Tool = NewTool base ''get-istio-analyze''
         [WithDescription
          ''Analyze Istio configuration and report potential issues, misconfigurations, and best practice violations. This tool runs 'istioctl analyze' to provide comprehensive analysis of your Istio service mesh configuration.'',
          WithString ''namespace''
            [Description
             ''Namespace to analyze (optional). If specified, analyzes only the specified namespace. If not provided, analyzes the entire cluster.''],
          WithTitleAnnotation ''Istio: Configuration Analysis'',
          WithReadOnlyHintAnnotation True,
          WithDestructiveHintAnnotation False],
       st_Handler = getIstioAnalyze\<rparr>]"

datatype Profile = FullProfile

fun GetTools :: "ToolAnnotation \<Rightarrow> Profile \<Rightarrow> ServerTool list" where
  "GetTools base FullProfile =
     initNetworkingTools base @ initSecurityTools base @ initConfigurationTools base
     @ initProxyConfigTools base"

section \<open>The server (package mcp, mcp.go)\<close>

record Configuration =
  cfg_Profile :: Profile
  cfg_Kubeconfig :: string

text \<open>\<open>srv_tools\<close> is the tool set registered in the MCP server (\<open>SetTools\<close> replaces
  it); \<open>srv_i\<close> is the field \<open>i\<close>, nil until the first successful reload.\<close>

record Server =
  configuration :: Configuration
  srv_tools :: "ServerTool list"
  srv_i :: "Istio option"

definition reloadIstioClient :: "libs \<Rightarrow> ToolAnnotation \<Rightarrow> Server \<Rightarrow> Server \<times> error option" where
  "reloadIstioClient l base s =
     (case NewIstio l (cfg_Kubeconfig (configuration s)) of
        Inl err \<Rightarrow> (s, Some err)
      | Inr i \<Rightarrow>
          (s\<lparr>srv_i := Some i, srv_tools := GetTools base (cfg_Profile (configuration s))\<rparr>, None))"

text \<open>\<open>NewServer\<close> returns an error or the server together with the watchers of the
  process; \<open>None\<close> stands for a nil dereference of \<open>s.i\<close>.\<close>

definition NewServer ::
  "libs \<Rightarrow> ToolAnnotation \<Rightarrow> Configuration \<Rightarrow> watchers \<Rightarrow> (error + Server \<times> watchers) option" where
  "NewServer l base cfg ws =
     (let s = \<lparr>configuration = cfg, srv_tools = [], srv_i = None\<rparr>
      in case reloadIstioClient l base s of
           (_, Some err) \<Rightarrow> Some (Inl err)
         | (s', None) \<Rightarrow>
             (case srv_i s' of
                None \<Rightarrow> None
              | Some i \<Rightarrow>
                  (let (i', ws') = WatchKubeConfig l i ws
                   in Some (Inr (s'\<lparr>srv_i := Some i'\<rparr>, ws')))))"

definition Close_Server :: "Server \<Rightarrow> watchers \<Rightarrow> watchers" where
  "Close_Server s ws =
     (case srv_i s of
        Some i \<Rightarrow> Close_Istio i ws
      | None \<Rightarrow> ws)"

text \<open>
  What happens to a running server: one of the watchers delivers a file event while the
  libraries and files are in some state (the goroutine of an open watcher then calls
  \<open>reloadIstioClient\<close> and only logs its error; a closed watcher delivers nothing), or the
  server is closed.
\<close>

datatype event = WatcherEvent nat libs | CloseServer

fun step :: "ToolAnnotation \<Rightarrow> Server \<times> watchers \<Rightarrow> event \<Rightarrow> Server \<times> watchers" where
  "step base (s, ws) (WatcherEvent w l) =
     (if w \<in> fst ` set (open_watchers ws) then (fst (reloadIstioClient l base s), ws)
      else (s, ws))"
| "step base (s, ws) CloseServer = (s, Close_Server s ws)"

definition run :: "ToolAnnotation \<Rightarrow> Server \<times> watchers \<Rightarrow> event list \<Rightarrow> Server \<times> watchers" where
  "run base st evs = foldl (step base) st evs"

section \<open>A sample host, cluster and library state\<close>

text \<open>
  Concrete values on which the theorems below are evaluated: a cluster with no Istio
  resources and one service \<open>web\<close> selected by two labels, a host on which
  \<open>istioctl\<close> prints nothing and succeeds, libraries that load any kubeconfig, and
  the default annotations of the MCP library's \<open>NewTool\<close>.
\<close>

definition ex_istio_api :: istio_api where
  "ex_istio_api =
     \<lparr>VirtualServices_List = (\<lambda>ns. Inr []), DestinationRules_List = (\<lambda>ns. Inr []),
      Gateways_List = (\<lambda>ns. Inr []), ServiceEntries_List = (\<lambda>ns. Inr []),
      AuthorizationPolicies_List = (\<lambda>ns. Inr []), PeerAuthentications_List = (\<lambda>ns. Inr []),
      EnvoyFilters_List = (\<lambda>ns. Inr []), Telemetries_List = (\<lambda>ns. Inr [])\<rparr>"

definition ex_web :: Service where
  "ex_web =
     \<lparr>svc_Name = ''web'', svc_Type = ''ClusterIP'', svc_ClusterIP = ''10.0.0.7'', svc_Ingress = [],
      svc_Selector = Some [(''app'', ''web''), (''tier'', ''frontend'')]\<rparr>"

definition ex_kube_api :: kube_api where
  "ex_kube_api =
     \<lparr>Services_List = (\<lambda>ns. Inr [ex_web]),
      Services_Get = (\<lambda>ns name. if name = ''web'' then Inr ex_web else Inl (Error ''not found'')),
      Endpoints_Get = (\<lambda>ns name. Inl (Error ''not found'')),
      Pods_List = (\<lambda>ns labelSelector fieldSelector. Inr [])\<rparr>"

definition ex_host :: host where
  "ex_host =
     \<lparr>run_istioctl = (\<lambda>timeout args. ([], None)),
      range_labels = (\<lambda>m. m), range_counts = (\<lambda>m. m)\<rparr>"

definition ex_istio :: Istio where
  "ex_istio =
     \<lparr>kubeClient = ex_kube_api, istioClient = ex_istio_api, config = RestConfig ''/kube/config'',
      clientCmdConfig = Some \<lparr>ConfigAccess = Some [''/kube/config'']\<rparr>,
      CloseWatchKubeConfig = None, ProxyConfig = NewProxyConfigClient ''/kube/config''\<rparr>"

definition ex_libs :: libs where
  "ex_libs =
     \<lparr>BuildConfigFromFlags = (\<lambda>kubeconfig. Inr (RestConfig kubeconfig)),
      NewClientConfigFromBytes = Inl (Error ''empty config''),
      ExplicitPathClientConfig = (\<lambda>kubeconfig. \<lparr>ConfigAccess = Some [kubeconfig]\<rparr>),
      DefaultClientConfig = \<lparr>ConfigAccess = Some [''/home/user/.kube/config'']\<rparr>,
      DefaultClientConfig_ClientConfig = Inr (RestConfig ''/home/user/.kube/config''),
      kubernetes_NewForConfig = (\<lambda>cfg. Inr ex_kube_api),
      versioned_NewForConfig = (\<lambda>cfg. Inr ex_istio_api),
      fsnotify_NewWatcher = None,
      watcher_Add = (\<lambda>file. None)\<rparr>"

definition ex_libs_broken :: libs where
  "ex_libs_broken = ex_libs\<lparr>BuildConfigFromFlags := (\<lambda>kubeconfig. Inl (Error ''invalid configuration''))\<rparr>"

definition ex_annotations :: ToolAnnotation where
  "ex_annotations =
     \<lparr>ann_Title = [], ann_ReadOnlyHint = Some False, ann_DestructiveHint = Some True,
      ann_IdempotentHint = Some False, ann_OpenWorldHint = Some True\<rparr>"

definition ex_configuration :: Configuration where
  "ex_configuration = \<lparr>cfg_Profile = FullProfile, cfg_Kubeconfig = ''/kube/config''\<rparr>"

definition no_watchers :: watchers where
  "no_watchers = \<lparr>next_watcher = 0, open_watchers = [], close_calls = []\<rparr>"

text \<open>The server that \<open>NewServer\<close> builds from these, and the watchers it leaves.\<close>

definition ex_server :: Server where
  "ex_server =
     \<lparr>configuration = ex_configuration,
      srv_tools = GetTools ex_annotations FullProfile,
      srv_i = Some (ex_istio\<lparr>CloseWatchKubeConfig := Some 0\<rparr>)\<rparr>"

definition ex_watchers :: watchers where
  "ex_watchers = \<lparr>next_watcher = 1, open_watchers = [(0, [''/kube/config''])], close_calls = []\<rparr>"

text \<open>A handle whose cluster refuses the listing of service entries in
  \<open>istio-system\<close> and has no Istio resources elsewhere.\<close>

definition ex_istio_sysfail :: Istio where
  "ex_istio_sysfail =
     ex_istio\<lparr>istioClient :=
       ex_istio_api\<lparr>ServiceEntries_List :=
         (\<lambda>ns. if ns = ''istio-system'' then Inl (Error ''forbidden'') else Inr [])\<rparr>\<rparr>"


section \<open>Vocabulary of the statements\<close>

text \<open>
  A parameter is missing when its key is absent, its value is null or it is the empty
  string. The argument maps the interface admits hold strings only: a declared
  parameter is a string or is absent. The first missing required parameter is the
  first one, in the order of declaration, that is missing.
\<close>

definition absent_or_empty :: "jvalue option \<Rightarrow> bool" where
  "absent_or_empty v = (v = None \<or> v = Some JNull \<or> v = Some (JString []))"

definition string_or_absent :: "jvalue option \<Rightarrow> bool" where
  "string_or_absent v =
     (case v of None \<Rightarrow> True | Some JNull \<Rightarrow> True | Some (JString _) \<Rightarrow> True | Some _ \<Rightarrow> False)"

definition first_missing :: "string list \<Rightarrow> arguments \<Rightarrow> string option" where
  "first_missing required args = find (\<lambda>p. absent_or_empty (args p)) required"

text \<open>The message each required parameter has when it is missing.\<close>

definition required_message :: "string \<Rightarrow> string" where
  "required_message p =
     (if p = ''pod'' then ''pod name is required''
      else if p = ''service''
      then ''service name is required - use 'get-services' first to discover available services''
      else p @ '' is required'')"

text \<open>The content the specification gives for a listing with no items:
  \<open>Found 0 <Kind> in namespace '<ns>':\<close> and a newline.\<close>

definition empty_listing :: "string \<Rightarrow> string \<Rightarrow> string" where
  "empty_listing kind ns =
     ''Found 0 '' @ kind @ '' in namespace '' @ [CHR 0x27] @ ns @ [CHR 0x27] @ '':'' @ [CHR 0x0A]"

section \<open>Result envelope\<close>

text \<open>
  C4. For every handler result \<open>(content, err)\<close>: when \<open>err\<close> is non-nil the envelope
  has \<open>isError = true\<close> and its content is exactly one text item holding the error's
  message, the content string being discarded; otherwise the envelope has
  \<open>isError = false\<close> and exactly one text item holding \<open>content\<close>. Every envelope
  carries exactly one content item.
\<close>

theorem NewTextResult_envelope:
  "NewTextResult content (Some e) = \<lparr>IsError = True, Content = [TextContent ''text'' (message e)]\<rparr>
   \<and> NewTextResult content None = \<lparr>IsError = False, Content = [TextContent ''text'' content]\<rparr>
   \<and> length (Content (NewTextResult content err)) = 1"
  by (simp add: NewTextResult_def split: option.split)


section \<open>The tool catalog is read-only\<close>

lemmas catalog_defs =
  initNetworkingTools_def initSecurityTools_def initConfigurationTools_def initProxyConfigTools_def

text \<open>
  C9. Whatever annotations the library gives a new tool by default and whichever
  profile is built, every descriptor of the built catalog carries \<open>readOnly = true\<close> and
  \<open>destructive = false\<close>.
\<close>

theorem catalog_read_only:
  "\<forall>t \<in> set (GetTools base p).
     ann_ReadOnlyHint (tool_Annotations (st_Tool t)) = Some True
     \<and> ann_DestructiveHint (tool_Annotations (st_Tool t)) = Some False"
proof (cases p)
  case FullProfile
  show ?thesis
    unfolding FullProfile
    by (simp add: catalog_defs NewTool_def)
qed

theorem catalog_read_only_witness:
  "last (GetTools ex_annotations FullProfile) \<in> set (GetTools ex_annotations FullProfile)
   \<and> ann_ReadOnlyHint ex_annotations = Some False
   \<and> ann_DestructiveHint ex_annotations = Some True
   \<and> ann_ReadOnlyHint (tool_Annotations (st_Tool (last (GetTools ex_annotations FullProfile)))) = Some True
   \<and> ann_DestructiveHint (tool_Annotations (st_Tool (last (GetTools ex_annotations FullProfile)))) = Some False"
proof -
  have ne: "GetTools ex_annotations FullProfile \<noteq> []"
    by (simp add: initNetworkingTools_def)
  then have mem: "last (GetTools ex_annotations FullProfile) \<in> set (GetTools ex_annotations FullProfile)"
    by (rule last_in_set)
  from catalog_read_only [of ex_annotations FullProfile] mem show ?thesis
    by (simp add: ex_annotations_def)
qed

section \<open>Reloading the handle\<close>

lemma NewIstio_ex_libs:
  "NewIstio ex_libs ''/kube/config'' = Inr ex_istio"
  by (simp add: NewIstio_def buildConfig_def ex_libs_def ex_istio_def)

lemma NewIstio_ex_libs_broken:
  "NewIstio ex_libs_broken ''/kube/config'' = Inl (Error ''failed to build config: invalid configuration'')"
  by (simp add: NewIstio_def buildConfig_def ex_libs_def ex_libs_broken_def wrap_def)

lemma WatchKubeConfig_ex:
  "WatchKubeConfig ex_libs ex_istio no_watchers = (ex_istio\<lparr>CloseWatchKubeConfig := Some 0\<rparr>, ex_watchers)"
  by (simp add: WatchKubeConfig_def ex_istio_def ex_libs_def no_watchers_def ex_watchers_def)

lemma ex_configuration_simps:
  "cfg_Kubeconfig ex_configuration = ''/kube/config''" "cfg_Profile ex_configuration = FullProfile"
  by (simp_all add: ex_configuration_def)

lemma NewServer_ex:
  "NewServer ex_libs ex_annotations ex_configuration no_watchers = Some (Inr (ex_server, ex_watchers))"
  unfolding NewServer_def reloadIstioClient_def
  by (simp add: ex_configuration_simps NewIstio_ex_libs WatchKubeConfig_ex ex_server_def
      del: GetTools.simps)

lemma ex_server_simps:
  "configuration ex_server = ex_configuration"
  "srv_i ex_server = Some (ex_istio\<lparr>CloseWatchKubeConfig := Some 0\<rparr>)"
  by (simp_all add: ex_server_def)

text \<open>
  C3. When constructing the new handle fails during a reload, the callback returns
  that error and the server is unchanged: the installed handle and the installed tool
  catalog are the ones it had. The watcher's goroutine only logs the error, so the
  whole state after the file event is the state before it.
\<close>

theorem reload_failure_keeps_server:
  "NewIstio l (cfg_Kubeconfig (configuration s)) = Inl err \<Longrightarrow>
     reloadIstioClient l base s = (s, Some err)
     \<and> step base (s, ws) (WatcherEvent w l) = (s, ws)"
  by (simp add: reloadIstioClient_def)

theorem reload_failure_keeps_server_witness:
  "NewIstio ex_libs_broken (cfg_Kubeconfig (configuration ex_server))
     = Inl (Error ''failed to build config: invalid configuration'')
   \<and> reloadIstioClient ex_libs_broken ex_annotations ex_server
     = (ex_server, Some (Error ''failed to build config: invalid configuration''))
   \<and> step ex_annotations (ex_server, ex_watchers) (WatcherEvent 0 ex_libs_broken)
     = (ex_server, ex_watchers)"
proof -
  have f: "NewIstio ex_libs_broken (cfg_Kubeconfig (configuration ex_server))
     = Inl (Error ''failed to build config: invalid configuration'')"
    by (simp add: ex_server_simps ex_configuration_simps NewIstio_ex_libs_broken)
  from reload_failure_keeps_server [OF f, of ex_annotations ex_watchers 0] f show ?thesis
    by simp
qed

section \<open>The kubeconfig watch\<close>

lemma watcher_Close_length:
  "length (open_watchers (watcher_Close w ws)) \<le> length (open_watchers ws)"
  by (simp add: watcher_Close_def)

lemma step_open_le:
  "length (open_watchers (snd (step base st ev))) \<le> length (open_watchers (snd st))"
proof (cases st)
  case (Pair s ws)
  show ?thesis
    unfolding Pair
    by (cases ev) (simp_all add: Close_Server_def Close_Istio_def watcher_Close_length
        split: option.split)
qed

lemma run_open_le:
  "length (open_watchers (snd (run base st evs))) \<le> length (open_watchers (snd st))"
  unfolding run_def
proof (induction evs arbitrary: st)
  case Nil
  show ?case by simp
next
  case (Cons ev evs)
  have "length (open_watchers (snd (foldl (step base) (step base st ev) evs)))
          \<le> length (open_watchers (snd (step base st ev)))"
    by (rule Cons.IH)
  also have "\<dots> \<le> length (open_watchers (snd st))"
    by (rule step_open_le)
  finally show ?case by simp
qed

lemma WatchKubeConfig_effect:
  "WatchKubeConfig l i ws = (i, ws)
   \<or> (CloseWatchKubeConfig (fst (WatchKubeConfig l i ws)) = Some (next_watcher ws)
      \<and> close_calls (snd (WatchKubeConfig l i ws))
          = close_calls ws @ (case CloseWatchKubeConfig i of Some old \<Rightarrow> [old] | None \<Rightarrow> [])
      \<and> (\<forall>old. CloseWatchKubeConfig i = Some old
            \<longrightarrow> old \<notin> fst ` set (open_watchers (snd (WatchKubeConfig l i ws)))))"
  by (auto simp add: WatchKubeConfig_def watcher_Close_def Let_def split: option.split)

lemma WatchKubeConfig_open_le:
  "length (open_watchers (snd (WatchKubeConfig l i ws))) \<le> length (open_watchers ws) + 1"
  by (simp add: WatchKubeConfig_def watcher_Close_def Let_def le_SucI split: option.split)

lemma NewServer_char:
  "NewServer l base cfg ws =
     (case NewIstio l (cfg_Kubeconfig cfg) of
        Inl err \<Rightarrow> Some (Inl err)
      | Inr i \<Rightarrow>
          Some (Inr (\<lparr>configuration = cfg, srv_tools = GetTools base (cfg_Profile cfg),
                      srv_i = Some (fst (WatchKubeConfig l i ws))\<rparr>,
                     snd (WatchKubeConfig l i ws))))"
  by (simp add: NewServer_def reloadIstioClient_def split: sum.split prod.split del: GetTools.simps)

lemma NewServer_open_le:
  assumes "NewServer l base cfg ws = Some (Inr st)"
  shows "length (open_watchers (snd st)) \<le> length (open_watchers ws) + 1"
proof (cases "NewIstio l (cfg_Kubeconfig cfg)")
  case (Inl err)
  with assms show ?thesis by (simp add: NewServer_char)
next
  case (Inr i)
  with assms have "snd st = snd (WatchKubeConfig l i ws)"
    by (auto simp add: NewServer_char)
  then show ?thesis using WatchKubeConfig_open_le [of l i ws] by simp
qed

text \<open>
  C1, as the code has it. A kubeconfig watch is installed only by \<open>NewServer\<close>, after
  the first handle has been constructed (\<open>NewServer\<close> fails, with no server and no watch,
  when the construction fails). The reload callback installs no watch and closes none:
  the watchers after a file event are the watchers before it, whether the new handle
  was constructed or not. \<open>WatchKubeConfig\<close> either changes nothing or records the new
  watcher in the handle and closes the watcher the handle recorded before, exactly
  once, so that it is no longer open. In every state reachable from a server started
  with no open watcher, at most one watcher is open.
\<close>

theorem watch_lifecycle:
  "snd (step base (s, ws) (WatcherEvent w l)) = ws
   \<and> NewServer l base cfg ws =
       (case NewIstio l (cfg_Kubeconfig cfg) of
          Inl err \<Rightarrow> Some (Inl err)
        | Inr i \<Rightarrow>
            Some (Inr (\<lparr>configuration = cfg, srv_tools = GetTools base (cfg_Profile cfg),
                        srv_i = Some (fst (WatchKubeConfig l i ws))\<rparr>,
                       snd (WatchKubeConfig l i ws))))
   \<and> (WatchKubeConfig l i ws = (i, ws)
      \<or> (CloseWatchKubeConfig (fst (WatchKubeConfig l i ws)) = Some (next_watcher ws)
         \<and> close_calls (snd (WatchKubeConfig l i ws))
             = close_calls ws @ (case CloseWatchKubeConfig i of Some old \<Rightarrow> [old] | None \<Rightarrow> [])
         \<and> (\<forall>old. CloseWatchKubeConfig i = Some old
               \<longrightarrow> old \<notin> fst ` set (open_watchers (snd (WatchKubeConfig l i ws))))))
   \<and> (open_watchers ws = [] \<longrightarrow> NewServer l base cfg ws = Some (Inr st)
        \<longrightarrow> length (open_watchers (snd (run base st evs))) \<le> 1)"
proof (intro conjI impI)
  show "snd (step base (s, ws) (WatcherEvent w l)) = ws"
    by simp
  show "NewServer l base cfg ws =
       (case NewIstio l (cfg_Kubeconfig cfg) of
          Inl err \<Rightarrow> Some (Inl err)
        | Inr i \<Rightarrow>
            Some (Inr (\<lparr>configuration = cfg, srv_tools = GetTools base (cfg_Profile cfg),
                        srv_i = Some (fst (WatchKubeConfig l i ws))\<rparr>,
                       snd (WatchKubeConfig l i ws))))"
    by (rule NewServer_char)
  show "WatchKubeConfig l i ws = (i, ws)
      \<or> (CloseWatchKubeConfig (fst (WatchKubeConfig l i ws)) = Some (next_watcher ws)
         \<and> close_calls (snd (WatchKubeConfig l i ws))
             = close_calls ws @ (case CloseWatchKubeConfig i of Some old \<Rightarrow> [old] | None \<Rightarrow> [])
         \<and> (\<forall>old. CloseWatchKubeConfig i = Some old
               \<longrightarrow> old \<notin> fst ` set (open_watchers (snd (WatchKubeConfig l i ws)))))"
    by (rule WatchKubeConfig_effect)
next
  assume empty: "open_watchers ws = []" and started: "NewServer l base cfg ws = Some (Inr st)"
  have "length (open_watchers (snd (run base st evs))) \<le> length (open_watchers (snd st))"
    by (rule run_open_le)
  also have "\<dots> \<le> length (open_watchers ws) + 1"
    using started by (rule NewServer_open_le)
  finally show "length (open_watchers (snd (run base st evs))) \<le> 1"
    using empty by simp
qed

theorem watch_lifecycle_witness:
  "open_watchers no_watchers = []
   \<and> NewServer ex_libs ex_annotations ex_configuration no_watchers = Some (Inr (ex_server, ex_watchers))
   \<and> length (open_watchers (snd (run ex_annotations (ex_server, ex_watchers)
        [WatcherEvent 0 ex_libs, WatcherEvent 0 ex_libs_broken, CloseServer, WatcherEvent 0 ex_libs])))
       \<le> 1
   \<and> CloseWatchKubeConfig (ex_istio\<lparr>CloseWatchKubeConfig := Some 0\<rparr>) = Some 0
   \<and> WatchKubeConfig ex_libs (ex_istio\<lparr>CloseWatchKubeConfig := Some 0\<rparr>) ex_watchers
       \<noteq> (ex_istio\<lparr>CloseWatchKubeConfig := Some 0\<rparr>, ex_watchers)
   \<and> close_calls (snd (WatchKubeConfig ex_libs (ex_istio\<lparr>CloseWatchKubeConfig := Some 0\<rparr>) ex_watchers))
       = [0]
   \<and> 0 \<notin> fst ` set (open_watchers
        (snd (WatchKubeConfig ex_libs (ex_istio\<lparr>CloseWatchKubeConfig := Some 0\<rparr>) ex_watchers)))"
proof -
  have e: "open_watchers no_watchers = []"
    by (simp add: no_watchers_def)
  have c: "CloseWatchKubeConfig (ex_istio\<lparr>CloseWatchKubeConfig := Some 0\<rparr>) = Some 0"
    by simp
  have n: "WatchKubeConfig ex_libs (ex_istio\<lparr>CloseWatchKubeConfig := Some 0\<rparr>) ex_watchers
       \<noteq> (ex_istio\<lparr>CloseWatchKubeConfig := Some 0\<rparr>, ex_watchers)"
    by (simp add: WatchKubeConfig_def ex_istio_def ex_libs_def ex_watchers_def watcher_Close_def)
  have k: "close_calls ex_watchers = []"
    by (simp add: ex_watchers_def)
  from watch_lifecycle [where base = ex_annotations and s = ex_server and ws = no_watchers
      and w = 0 and l = ex_libs and cfg = ex_configuration
      and i = "ex_istio\<lparr>CloseWatchKubeConfig := Some 0\<rparr>" and st = "(ex_server, ex_watchers)"
      and evs = "[WatcherEvent 0 ex_libs, WatcherEvent 0 ex_libs_broken, CloseServer, WatcherEvent 0 ex_libs]"]
    watch_lifecycle [where base = ex_annotations and s = ex_server and ws = ex_watchers
      and w = 0 and l = ex_libs and cfg = ex_configuration
      and i = "ex_istio\<lparr>CloseWatchKubeConfig := Some 0\<rparr>" and st = "(ex_server, ex_watchers)"
      and evs = "[]"]
    e c n k NewServer_ex
  show ?thesis
    by simp
qed

text \<open>
  C1 as the specification words it fails: a file event rebuilds the handle of the
  sample server, the rebuilt handle records no watch, and the watch of the previous
  handle has not been closed once, but never.
\<close>

theorem reload_closes_no_watch_counterexample:
  "srv_i ex_server = Some (ex_istio\<lparr>CloseWatchKubeConfig := Some 0\<rparr>)
   \<and> srv_i (fst (step ex_annotations (ex_server, ex_watchers) (WatcherEvent 0 ex_libs))) = Some ex_istio
   \<and> CloseWatchKubeConfig ex_istio = None
   \<and> \<not> (count_list (close_calls (snd (step ex_annotations (ex_server, ex_watchers)
             (WatcherEvent 0 ex_libs)))) 0 = 1)"
  by (simp add: ex_server_simps ex_configuration_simps reloadIstioClient_def NewIstio_ex_libs
      ex_watchers_def ex_istio_def del: GetTools.simps)

text \<open>After such a reload, closing the server closes no watcher: the handle it closes
  is the rebuilt one, which records none.\<close>

lemma close_after_reload:
  "run ex_annotations (ex_server, ex_watchers) [WatcherEvent 0 ex_libs, CloseServer]
     = (ex_server\<lparr>srv_i := Some ex_istio\<rparr>, ex_watchers)"
  by (simp add: run_def ex_server_simps ex_configuration_simps reloadIstioClient_def NewIstio_ex_libs
      ex_watchers_def Close_Server_def Close_Istio_def ex_istio_def ex_server_def del: GetTools.simps)


section \<open>Argument extraction\<close>





lemma stringArg_missing:
  "absent_or_empty (args k) \<Longrightarrow> stringArg args k [] = Some []"
  by (auto simp add: absent_or_empty_def stringArg_def)

lemma stringArg_total:
  "string_or_absent (args k) \<Longrightarrow> \<exists>s. stringArg args k d = Some s"
  by (auto simp add: string_or_absent_def stringArg_def split: option.splits jvalue.splits)

lemma stringArg_present:
  "string_or_absent (args k) \<Longrightarrow> \<not> absent_or_empty (args k) \<Longrightarrow>
     \<exists>s. s \<noteq> [] \<and> stringArg args k [] = Some s"
  by (auto simp add: string_or_absent_def absent_or_empty_def stringArg_def
      split: option.splits jvalue.splits)

section \<open>Missing required parameters\<close>

lemma pod_missing:
  assumes "string_or_absent (args ''namespace'')" and "absent_or_empty (args ''pod'')"
  shows "getProxyClusters h i args = Some (errorResult ''pod name is required'')"
    and "getProxyListeners h i args = Some (errorResult ''pod name is required'')"
    and "getProxyRoutes h i args = Some (errorResult ''pod name is required'')"
    and "getProxyEndpoints h i args = Some (errorResult ''pod name is required'')"
    and "getProxyBootstrap h i args = Some (errorResult ''pod name is required'')"
    and "getProxyConfigDump h i args = Some (errorResult ''pod name is required'')"
proof -
  obtain ns where ns: "stringArg args ''namespace'' ''default'' = Some ns"
    using assms(1) stringArg_total [of args "''namespace''" "''default''"] by blast
  have pod: "stringArg args ''pod'' [] = Some []"
    using assms(2) stringArg_missing [of args] by blast
  show "getProxyClusters h i args = Some (errorResult ''pod name is required'')"
    by (simp add: getProxyClusters_def ns pod)
  show "getProxyListeners h i args = Some (errorResult ''pod name is required'')"
    by (simp add: getProxyListeners_def ns pod)
  show "getProxyRoutes h i args = Some (errorResult ''pod name is required'')"
    by (simp add: getProxyRoutes_def ns pod)
  show "getProxyEndpoints h i args = Some (errorResult ''pod name is required'')"
    by (simp add: getProxyEndpoints_def ns pod)
  show "getProxyBootstrap h i args = Some (errorResult ''pod name is required'')"
    by (simp add: getProxyBootstrap_def ns pod)
  show "getProxyConfigDump h i args = Some (errorResult ''pod name is required'')"
    by (simp add: getProxyConfigDump_def ns pod)
qed

lemma service_missing:
  assumes "string_or_absent (args ''namespace'')" and "absent_or_empty (args ''service'')"
  shows "getPodsByService h i args = Some (errorResult
           ''service name is required - use 'get-services' first to discover available services'')"
proof -
  obtain ns where ns: "stringArg args ''namespace'' ''default'' = Some ns"
    using assms(1) stringArg_total [of args "''namespace''" "''default''"] by blast
  have svc: "stringArg args ''service'' [] = Some []"
    using assms(2) stringArg_missing [of args] by blast
  show ?thesis
    by (simp add: getPodsByService_def ns svc)
qed

lemma service_name_missing:
  assumes "absent_or_empty (args ''service-name'')"
  shows "checkExternalDependencyAvailability h i args = Some (errorResult ''service-name is required'')"
  using assms stringArg_missing [of args "''service-name''"]
  by (simp add: checkExternalDependencyAvailability_def)

lemma external_host_missing:
  assumes "string_or_absent (args ''service-name'')" and "\<not> absent_or_empty (args ''service-name'')"
    and "absent_or_empty (args ''external-host'')"
  shows "checkExternalDependencyAvailability h i args = Some (errorResult ''external-host is required'')"
proof -
  obtain s where s: "s \<noteq> []" "stringArg args ''service-name'' [] = Some s"
    using assms(1,2) stringArg_present [of args "''service-name''"] by blast
  have e: "stringArg args ''external-host'' [] = Some []"
    using assms(3) stringArg_missing [of args] by blast
  show ?thesis
    by (simp add: checkExternalDependencyAvailability_def s e)
qed

lemma required_message_simps:
  "required_message ''pod'' = ''pod name is required''"
  "required_message ''service''
     = ''service name is required - use 'get-services' first to discover available services''"
  "required_message ''service-name'' = ''service-name is required''"
  "required_message ''external-host'' = ''external-host is required''"
  by (simp_all add: required_message_def)

text \<open>
  C2, as the code has it. For every operation of the catalog, with arguments whose
  declared parameters are strings or absent: when a declared-required parameter is
  absent or empty, the handler returns the error envelope for the first missing one
  and issues no call to the backend. The message is the parameter's own:
  \<open>service-name is required\<close>, \<open>external-host is required\<close>, \<open>pod name is required\<close>,
  and for \<open>service\<close> the sentence that points to \<open>get-services\<close>.
\<close>

theorem missing_required_parameter:
  "\<forall>t \<in> set (GetTools base p).
     (\<forall>k \<in> dom (tool_Properties (st_Tool t)). string_or_absent (args k))
     \<longrightarrow> (\<forall>q. first_missing (tool_Required (st_Tool t)) args = Some q
            \<longrightarrow> st_Handler t h i args = Some ([], NewTextResult [] (Some (Error (required_message q)))))"
proof (cases p)
  case FullProfile
  show ?thesis
    unfolding FullProfile
    apply (simp add: catalog_defs NewTool_def first_missing_def)
    apply (auto simp add: required_message_simps pod_missing service_missing service_name_missing
        external_host_missing errorResult_def)
    done
qed


theorem missing_required_parameter_witness:
  "hd (initProxyConfigTools ex_annotations) \<in> set (GetTools ex_annotations FullProfile)
   \<and> tool_Name (st_Tool (hd (initProxyConfigTools ex_annotations))) = ''get-proxy-clusters''
   \<and> dom (tool_Properties (st_Tool (hd (initProxyConfigTools ex_annotations)))) = {''namespace'', ''pod''}
   \<and> string_or_absent ([''namespace'' \<mapsto> JString ''ns1''] ''namespace'')
   \<and> string_or_absent ([''namespace'' \<mapsto> JString ''ns1''] ''pod'')
   \<and> first_missing (tool_Required (st_Tool (hd (initProxyConfigTools ex_annotations))))
         [''namespace'' \<mapsto> JString ''ns1''] = Some ''pod''
   \<and> st_Handler (hd (initProxyConfigTools ex_annotations)) ex_host ex_istio
         [''namespace'' \<mapsto> JString ''ns1'']
       = Some ([], \<lparr>IsError = True, Content = [TextContent ''text'' ''pod name is required'']\<rparr>)"
proof -
  have mem: "hd (initProxyConfigTools ex_annotations) \<in> set (GetTools ex_annotations FullProfile)"
    by (simp add: initProxyConfigTools_def)
  have name: "tool_Name (st_Tool (hd (initProxyConfigTools ex_annotations))) = ''get-proxy-clusters''"
    and props: "dom (tool_Properties (st_Tool (hd (initProxyConfigTools ex_annotations))))
                = {''namespace'', ''pod''}"
    and req: "tool_Required (st_Tool (hd (initProxyConfigTools ex_annotations))) = [''pod'']"
    by (auto simp add: initProxyConfigTools_def NewTool_def)
  have ok: "string_or_absent ([''namespace'' \<mapsto> JString ''ns1''] ''namespace'')"
    "string_or_absent ([''namespace'' \<mapsto> JString ''ns1''] ''pod'')"
    by (simp_all add: string_or_absent_def)
  have miss: "first_missing (tool_Required (st_Tool (hd (initProxyConfigTools ex_annotations))))
         [''namespace'' \<mapsto> JString ''ns1''] = Some ''pod''"
    by (simp add: req first_missing_def absent_or_empty_def)
  from missing_required_parameter [of ex_annotations FullProfile "[''namespace'' \<mapsto> JString ''ns1'']"
      ex_host ex_istio] mem
  have "(\<forall>k \<in> dom (tool_Properties (st_Tool (hd (initProxyConfigTools ex_annotations)))).
            string_or_absent ([''namespace'' \<mapsto> JString ''ns1''] k))
        \<longrightarrow> (\<forall>q. first_missing (tool_Required (st_Tool (hd (initProxyConfigTools ex_annotations))))
                    [''namespace'' \<mapsto> JString ''ns1''] = Some q
               \<longrightarrow> st_Handler (hd (initProxyConfigTools ex_annotations)) ex_host ex_istio
                     [''namespace'' \<mapsto> JString ''ns1'']
                   = Some ([], NewTextResult [] (Some (Error (required_message q)))))"
    by blast
  with props ok miss
  have "st_Handler (hd (initProxyConfigTools ex_annotations)) ex_host ex_istio
          [''namespace'' \<mapsto> JString ''ns1'']
        = Some ([], NewTextResult [] (Some (Error (required_message ''pod''))))"
    by simp
  with mem name props ok miss show ?thesis
    by (simp add: required_message_simps NewTextResult_def)
qed

text \<open>
  C2 as the specification words it fails for the parameter \<open>pod\<close>: with no arguments
  the handler of \<open>get-proxy-clusters\<close>, whose only required parameter is \<open>pod\<close>, does not
  answer \<open>pod is required\<close>.
\<close>

theorem pod_required_message_counterexample:
  "tool_Name (st_Tool (hd (initProxyConfigTools ex_annotations))) = ''get-proxy-clusters''
   \<and> tool_Required (st_Tool (hd (initProxyConfigTools ex_annotations))) = [''pod'']
   \<and> \<not> (st_Handler (hd (initProxyConfigTools ex_annotations)) ex_host ex_istio Map.empty
          = Some ([], NewTextResult [] (Some (Error (''pod'' @ '' is required'')))))"
  by (simp add: initProxyConfigTools_def NewTool_def getProxyClusters_def stringArg_def
      errorResult_def NewTextResult_def)

section \<open>Proxy status\<close>

text \<open>
  C5, as the code has it. With \<open>namespace\<close> and \<open>pod\<close> read from the arguments (the
  empty string when absent), the proxy-status handler issues the per-pod invocation,
  targeting \<open><pod>.<namespace>\<close>, if and only if both are non-empty; otherwise, and so
  whenever the pod is absent, it issues the cluster-wide invocation.
\<close>

theorem proxy_status_shape:
  "stringArg args ''namespace'' [] = Some namespace \<Longrightarrow> stringArg args ''pod'' [] = Some podName \<Longrightarrow>
     getProxyStatus h i args =
       Some (textResult (if podName \<noteq> [] \<and> namespace \<noteq> []
                         then GetProxyStatusForPod h (ProxyConfig i) namespace podName
                         else GetProxyStatus h (ProxyConfig i)))
     \<and> map_option fst (getProxyStatus h i args) =
         Some [RunIstioctl
                ((if pc_kubeconfig (ProxyConfig i) \<noteq> []
                  then [''--kubeconfig'', pc_kubeconfig (ProxyConfig i)] else [])
                 @ (if podName \<noteq> [] \<and> namespace \<noteq> []
                    then [''proxy-status'', podName @ ''.'' @ namespace]
                    else [''proxy-status'']))]"
  by (simp add: getProxyStatus_def textResult_def GetProxyStatusForPod_def GetProxyStatus_def
      execIstioctl_def Let_def split: prod.split)

theorem proxy_status_shape_witness:
  "stringArg [''pod'' \<mapsto> JString ''app-1'', ''namespace'' \<mapsto> JString ''ns1''] ''namespace'' [] = Some ''ns1''
   \<and> stringArg [''pod'' \<mapsto> JString ''app-1'', ''namespace'' \<mapsto> JString ''ns1''] ''pod'' [] = Some ''app-1''
   \<and> map_option fst (getProxyStatus ex_host ex_istio
         [''pod'' \<mapsto> JString ''app-1'', ''namespace'' \<mapsto> JString ''ns1''])
       = Some [RunIstioctl [''--kubeconfig'', ''/kube/config'', ''proxy-status'', ''app-1.ns1'']]
   \<and> stringArg [''namespace'' \<mapsto> JString ''ns1''] ''pod'' [] = Some []
   \<and> map_option fst (getProxyStatus ex_host ex_istio [''namespace'' \<mapsto> JString ''ns1''])
       = Some [RunIstioctl [''--kubeconfig'', ''/kube/config'', ''proxy-status'']]"
proof -
  have a: "stringArg [''pod'' \<mapsto> JString ''app-1'', ''namespace'' \<mapsto> JString ''ns1''] ''namespace'' [] = Some ''ns1''"
    and b: "stringArg [''pod'' \<mapsto> JString ''app-1'', ''namespace'' \<mapsto> JString ''ns1''] ''pod'' [] = Some ''app-1''"
    and c: "stringArg [''namespace'' \<mapsto> JString ''ns1''] ''namespace'' [] = Some ''ns1''"
    and d: "stringArg [''namespace'' \<mapsto> JString ''ns1''] ''pod'' [] = Some []"
    by (simp_all add: stringArg_def)
  have k: "pc_kubeconfig (ProxyConfig ex_istio) = ''/kube/config''"
    by (simp add: ex_istio_def NewProxyConfigClient_def)
  from proxy_status_shape [OF a b, of ex_host ex_istio, THEN conjunct2]
    proxy_status_shape [OF c d, of ex_host ex_istio, THEN conjunct2]
    a b d k
  show ?thesis
    by simp
qed

text \<open>
  C5 as the specification words it fails: the pod argument is present, the namespace
  is not, and the invocation issued is the cluster-wide one, not the one that targets
  the pod.
\<close>

theorem proxy_status_pod_only_counterexample:
  "[''pod'' \<mapsto> JString ''app-1''] ''pod'' = Some (JString ''app-1'')
   \<and> map_option fst (getProxyStatus ex_host ex_istio [''pod'' \<mapsto> JString ''app-1''])
       = Some [RunIstioctl [''--kubeconfig'', ''/kube/config'', ''proxy-status'']]
   \<and> map_option fst (getProxyStatus ex_host ex_istio [''pod'' \<mapsto> JString ''app-1''])
       \<noteq> Some (fst (GetProxyStatusForPod ex_host (ProxyConfig ex_istio) [] ''app-1''))"
  by (simp add: getProxyStatus_def stringArg_def textResult_def GetProxyStatusForPod_def
      GetProxyStatus_def execIstioctl_def ex_istio_def ex_host_def NewProxyConfigClient_def)

section \<open>External dependency check\<close>

text \<open>
  C6, as the code has it. The check fails exactly when one of its four listings in the
  requested namespace fails (service entries, virtual services, destination rules,
  authorization policies). The additional listing of the service entries of
  \<open>istio-system\<close>, issued when the namespace has no matching service entry, is not
  mandatory: its failure does not make the check fail.
\<close>

theorem dependency_check_mandatory_listings:
  "isl (snd (CheckExternalDependencyAvailability i serviceName externalHost namespace))
   \<longleftrightarrow> (isl (ServiceEntries_List (istioClient i) namespace)
        \<or> isl (VirtualServices_List (istioClient i) namespace)
        \<or> isl (DestinationRules_List (istioClient i) namespace)
        \<or> isl (AuthorizationPolicies_List (istioClient i) namespace))"
  by (simp add: CheckExternalDependencyAvailability_def Let_def split: sum.split prod.split)

theorem dependency_check_mandatory_listings_witness:
  "isl (VirtualServices_List
          (istioClient (ex_istio\<lparr>istioClient := ex_istio_api\<lparr>VirtualServices_List := (\<lambda>ns. Inl (Error ''timeout''))\<rparr>\<rparr>))
          ''default'')
   \<and> isl (snd (CheckExternalDependencyAvailability
          (ex_istio\<lparr>istioClient := ex_istio_api\<lparr>VirtualServices_List := (\<lambda>ns. Inl (Error ''timeout''))\<rparr>\<rparr>)
          ''web'' ''rds.amazonaws.com'' ''default''))
   \<and> \<not> isl (snd (CheckExternalDependencyAvailability ex_istio ''web'' ''rds.amazonaws.com'' ''default''))"
  using dependency_check_mandatory_listings
    [of "ex_istio\<lparr>istioClient := ex_istio_api\<lparr>VirtualServices_List := (\<lambda>ns. Inl (Error ''timeout''))\<rparr>\<rparr>"
        "''web''" "''rds.amazonaws.com''" "''default''"]
    dependency_check_mandatory_listings [of ex_istio "''web''" "''rds.amazonaws.com''" "''default''"]
  by (simp add: ex_istio_def ex_istio_api_def)

text \<open>
  C6 as the specification words it fails: the check lists the service entries of
  \<open>istio-system\<close>, that listing fails, and the check still returns a report.
\<close>

theorem dependency_check_counterexample:
  "ListServiceEntries ''istio-system''
     \<in> set (fst (CheckExternalDependencyAvailability ex_istio_sysfail ''web'' ''rds.amazonaws.com'' ''default''))
   \<and> isl (ServiceEntries_List (istioClient ex_istio_sysfail) ''istio-system'')
   \<and> \<not> isl (snd (CheckExternalDependencyAvailability ex_istio_sysfail ''web'' ''rds.amazonaws.com'' ''default''))"
  by (simp add: CheckExternalDependencyAvailability_def service_entry_check_def
      virtual_service_check_def destination_rule_check_def
      ex_istio_sysfail_def ex_istio_def ex_istio_api_def)


section \<open>Listings with no items\<close>

lemma itoa_0: "itoa 0 = ''0''"
  by (simp add: itoa.simps digit_def)

lemma found_header_0: "found_header 0 kind ns = empty_listing kind ns"
  by (simp add: found_header_def empty_listing_def quoted_def sq_def nl_def itoa_0)

text \<open>
  C8. For each of the eight resource-listing operations: when the backend returns no
  items for the namespace the handler queries (the \<open>namespace\<close> argument, or
  \<open>default\<close>), the handler issues that one listing, succeeds, and its content is
  exactly \<open>Found 0 <Kind> in namespace '<ns>':\<close> followed by a newline.
\<close>

theorem empty_listings:
  "stringArg args ''namespace'' ''default'' = Some ns \<Longrightarrow>
   (VirtualServices_List (istioClient i) ns = Inr [] \<longrightarrow>
      getVirtualServices h i args =
        Some ([ListVirtualServices ns],
              \<lparr>IsError = False, Content = [TextContent ''text'' (empty_listing ''Virtual Services'' ns)]\<rparr>))
   \<and> (DestinationRules_List (istioClient i) ns = Inr [] \<longrightarrow>
      getDestinationRules h i args =
        Some ([ListDestinationRules ns],
              \<lparr>IsError = False, Content = [TextContent ''text'' (empty_listing ''Destination Rules'' ns)]\<rparr>))
   \<and> (Gateways_List (istioClient i) ns = Inr [] \<longrightarrow>
      getGateways h i args =
        Some ([ListGateways ns],
              \<lparr>IsError = False, Content = [TextContent ''text'' (empty_listing ''Gateways'' ns)]\<rparr>))
   \<and> (ServiceEntries_List (istioClient i) ns = Inr [] \<longrightarrow>
      getServiceEntries h i args =
        Some ([ListServiceEntries ns],
              \<lparr>IsError = False, Content = [TextContent ''text'' (empty_listing ''Service Entries'' ns)]\<rparr>))
   \<and> (AuthorizationPolicies_List (istioClient i) ns = Inr [] \<longrightarrow>
      getAuthorizationPolicies h i args =
        Some ([ListAuthorizationPolicies ns],
              \<lparr>IsError = False, Content = [TextContent ''text'' (empty_listing ''Authorization Policies'' ns)]\<rparr>))
   \<and> (PeerAuthentications_List (istioClient i) ns = Inr [] \<longrightarrow>
      getPeerAuthentications h i args =
        Some ([ListPeerAuthentications ns],
              \<lparr>IsError = False, Content = [TextContent ''text'' (empty_listing ''Peer Authentications'' ns)]\<rparr>))
   \<and> (EnvoyFilters_List (istioClient i) ns = Inr [] \<longrightarrow>
      getEnvoyFilters h i args =
        Some ([ListEnvoyFilters ns],
              \<lparr>IsError = False, Content = [TextContent ''text'' (empty_listing ''Envoy Filters'' ns)]\<rparr>))
   \<and> (Telemetries_List (istioClient i) ns = Inr [] \<longrightarrow>
      getTelemetries h i args =
        Some ([ListTelemetries ns],
              \<lparr>IsError = False, Content = [TextContent ''text'' (empty_listing ''Telemetry configurations'' ns)]\<rparr>))"
proof (intro conjI impI)
  assume ns: "stringArg args ''namespace'' ''default'' = Some ns"
  {
    assume "VirtualServices_List (istioClient i) ns = Inr []"
    then show "getVirtualServices h i args =
        Some ([ListVirtualServices ns],
              \<lparr>IsError = False, Content = [TextContent ''text'' (empty_listing ''Virtual Services'' ns)]\<rparr>)"
      by (simp add: getVirtualServices_def ns GetVirtualServices_def textResult_def NewTextResult_def
          found_header_0)
  }
  {
    assume "DestinationRules_List (istioClient i) ns = Inr []"
    then show "getDestinationRules h i args =
        Some ([ListDestinationRules ns],
              \<lparr>IsError = False, Content = [TextContent ''text'' (empty_listing ''Destination Rules'' ns)]\<rparr>)"
      by (simp add: getDestinationRules_def ns GetDestinationRules_def textResult_def NewTextResult_def
          found_header_0)
  }
  {
    assume "Gateways_List (istioClient i) ns = Inr []"
    then show "getGateways h i args =
        Some ([ListGateways ns],
              \<lparr>IsError = False, Content = [TextContent ''text'' (empty_listing ''Gateways'' ns)]\<rparr>)"
      by (simp add: getGateways_def ns GetGateways_def textResult_def NewTextResult_def found_header_0)
  }
  {
    assume "ServiceEntries_List (istioClient i) ns = Inr []"
    then show "getServiceEntries h i args =
        Some ([ListServiceEntries ns],
              \<lparr>IsError = False, Content = [TextContent ''text'' (empty_listing ''Service Entries'' ns)]\<rparr>)"
      by (simp add: getServiceEntries_def ns GetServiceEntries_def textResult_def NewTextResult_def
          found_header_0)
  }
  {
    assume "AuthorizationPolicies_List (istioClient i) ns = Inr []"
    then show "getAuthorizationPolicies h i args =
        Some ([ListAuthorizationPolicies ns],
              \<lparr>IsError = False, Content = [TextContent ''text'' (empty_listing ''Authorization Policies'' ns)]\<rparr>)"
      by (simp add: getAuthorizationPolicies_def ns GetAuthorizationPolicies_def textResult_def
          NewTextResult_def found_header_0)
  }
  {
    assume "PeerAuthentications_List (istioClient i) ns = Inr []"
    then show "getPeerAuthentications h i args =
        Some ([ListPeerAuthentications ns],
              \<lparr>IsError = False, Content = [TextContent ''text'' (empty_listing ''Peer Authentications'' ns)]\<rparr>)"
      by (simp add: getPeerAuthentications_def ns GetPeerAuthentications_def textResult_def
          NewTextResult_def found_header_0)
  }
  {
    assume "EnvoyFilters_List (istioClient i) ns = Inr []"
    then show "getEnvoyFilters h i args =
        Some ([ListEnvoyFilters ns],
              \<lparr>IsError = False, Content = [TextContent ''text'' (empty_listing ''Envoy Filters'' ns)]\<rparr>)"
      by (simp add: getEnvoyFilters_def ns GetEnvoyFilters_def textResult_def NewTextResult_def
          found_header_0)
  }
  {
    assume "Telemetries_List (istioClient i) ns = Inr []"
    then show "getTelemetries h i args =
        Some ([ListTelemetries ns],
              \<lparr>IsError = False, Content = [TextContent ''text'' (empty_listing ''Telemetry configurations'' ns)]\<rparr>)"
      by (simp add: getTelemetries_def ns GetTelemetries_def textResult_def NewTextResult_def
          found_header_0)
  }
qed

lemma ex_istio_lists:
  "VirtualServices_List (istioClient ex_istio) ns = Inr []"
  "DestinationRules_List (istioClient ex_istio) ns = Inr []"
  "Gateways_List (istioClient ex_istio) ns = Inr []"
  "ServiceEntries_List (istioClient ex_istio) ns = Inr []"
  "AuthorizationPolicies_List (istioClient ex_istio) ns = Inr []"
  "PeerAuthentications_List (istioClient ex_istio) ns = Inr []"
  "EnvoyFilters_List (istioClient ex_istio) ns = Inr []"
  "Telemetries_List (istioClient ex_istio) ns = Inr []"
  by (simp_all add: ex_istio_def ex_istio_api_def)

theorem empty_listings_witness:
  "stringArg [''namespace'' \<mapsto> JString ''production''] ''namespace'' ''default'' = Some ''production''
   \<and> VirtualServices_List (istioClient ex_istio) ''production'' = Inr []
   \<and> Telemetries_List (istioClient ex_istio) ''production'' = Inr []
   \<and> getVirtualServices ex_host ex_istio [''namespace'' \<mapsto> JString ''production''] =
        Some ([ListVirtualServices ''production''],
              \<lparr>IsError = False,
               Content = [TextContent ''text''
                 (''Found 0 Virtual Services in namespace '' @ [CHR 0x27] @ ''production'' @ [CHR 0x27]
                  @ '':'' @ [CHR 0x0A])]\<rparr>)
   \<and> getTelemetries ex_host ex_istio [''namespace'' \<mapsto> JString ''production''] =
        Some ([ListTelemetries ''production''],
              \<lparr>IsError = False,
               Content = [TextContent ''text''
                 (''Found 0 Telemetry configurations in namespace '' @ [CHR 0x27] @ ''production''
                  @ [CHR 0x27] @ '':'' @ [CHR 0x0A])]\<rparr>)"
proof -
  have a: "stringArg [''namespace'' \<mapsto> JString ''production''] ''namespace'' ''default'' = Some ''production''"
    by (simp add: stringArg_def)
  from empty_listings [OF a, of ex_istio ex_host] a show ?thesis
    by (simp add: ex_istio_lists empty_listing_def)
qed

section \<open>Repeated invocation\<close>

text \<open>
  C7 is contradicted by \<open>GetPodsByService\<close>. The selector of the sample service
  \<open>web\<close> has two labels. Two invocations with the same arguments against the same
  cluster, in which the runtime ranges over the selector map in the two possible
  orders, both succeed, send different label selectors and return different content.
\<close>

theorem get_pods_by_service_range_order:
  "map_option fst (getPodsByService ex_host ex_istio [''service'' \<mapsto> JString ''web''])
     = Some [GetService ''default'' ''web'', ListPods ''default'' ''app=web,tier=frontend'' []]
   \<and> map_option fst (getPodsByService (ex_host\<lparr>range_labels := rev\<rparr>) ex_istio [''service'' \<mapsto> JString ''web''])
     = Some [GetService ''default'' ''web'', ListPods ''default'' ''tier=frontend,app=web'' []]
   \<and> map_option (IsError \<circ> snd) (getPodsByService ex_host ex_istio [''service'' \<mapsto> JString ''web''])
     = Some False
   \<and> map_option (IsError \<circ> snd)
       (getPodsByService (ex_host\<lparr>range_labels := rev\<rparr>) ex_istio [''service'' \<mapsto> JString ''web''])
     = Some False
   \<and> map_option (Content \<circ> snd)
       (getPodsByService (ex_host\<lparr>range_labels := rev\<rparr>) ex_istio [''service'' \<mapsto> JString ''web''])
     \<noteq> map_option (Content \<circ> snd) (getPodsByService ex_host ex_istio [''service'' \<mapsto> JString ''web''])"
  by (simp add: getPodsByService_def stringArg_def GetPodsByService_def textResult_def NewTextResult_def
      ex_istio_def ex_kube_api_def ex_web_def ex_host_def Let_def)


section \<open>The namespace argument\<close>



end
